theory Spec2Isabelle
  imports Main
begin

section \<open>Values of the webhook handler\<close>

text \<open>
  The handler of \<^verbatim>\<open>lambda.py\<close> works on what \<^verbatim>\<open>json.loads\<close> returns: \<^verbatim>\<open>None\<close>,
  booleans, integers, floats, strings, lists and dictionaries. A dictionary is an
  association list in insertion order, read with \<open>map_of\<close>; the keys of a Python
  dictionary are distinct. Of a float only its truth value is ever read, so a finite float
  is kept as mantissa and binary exponent, next to the three special values that
  \<^verbatim>\<open>json.loads\<close> accepts.

  A Python string is held as its bytes in UTF-8, a lone surrogate as the three bytes the
  \<^verbatim>\<open>surrogatepass\<close> handler writes for it. The encoding is one-to-one and respects
  concatenation, so equality, emptiness and \<open>@\<close> are those of Python, and a string is
  ASCII text exactly when all its bytes are below 128.
\<close>

datatype pyfloat = Finite int int | PosInfinity | NegInfinity | NaN

datatype json =
    JNull
  | JBool bool
  | JInt int
  | JFloat pyfloat
  | JStr string
  | JList "json list"
  | JObj "(string \<times> json) list"

text \<open>The exceptions that can leave the handler. \<open>AttributeError\<close>, \<open>KeyError\<close> and
  \<open>TypeError\<close> come from the handler's own accesses to the payload,
  \<open>UnicodeEncodeError\<close> from its \<^verbatim>\<open>print\<close> calls, \<open>JSONDecodeError\<close>, \<open>RecursionError\<close>
  and \<open>ValueError\<close> from \<^verbatim>\<open>json.loads\<close>; \<open>SecretsManagerError\<close> is any exception of
  the secret lookup other than \<^verbatim>\<open>ResourceNotFoundException\<close> (lines 16-17), and
  \<open>CodePipelineError\<close> any exception of the trigger call (lines 45-50 and 100).\<close>

datatype exn =
    AttributeError
  | KeyError
  | TypeError
  | UnicodeEncodeError
  | JSONDecodeError
  | RecursionError
  | ValueError
  | SecretsManagerError
  | CodePipelineError

text \<open>Truth value of a Python object, as \<^verbatim>\<open>if not x\<close> reads it.\<close>

fun truthy :: "json \<Rightarrow> bool" where
  "truthy JNull = False"
| "truthy (JBool b) = b"
| "truthy (JInt i) = (i \<noteq> 0)"
| "truthy (JFloat (Finite m e)) = (m \<noteq> 0)"
| "truthy (JFloat _) = True"
| "truthy (JStr s) = (s \<noteq> [])"
| "truthy (JList xs) = (xs \<noteq> [])"
| "truthy (JObj kvs) = (kvs \<noteq> [])"

text \<open>\<^verbatim>\<open>obj.get(key, default)\<close>: only a dictionary has the method.\<close>

fun py_get :: "json \<Rightarrow> string \<Rightarrow> json \<Rightarrow> exn + json" where
  "py_get (JObj kvs) k d = Inr (case map_of kvs k of None \<Rightarrow> d | Some v \<Rightarrow> v)"
| "py_get _ k d = Inl AttributeError"

definition is_ascii :: "string \<Rightarrow> bool" where
  "is_ascii s = list_all (\<lambda>c. \<not> digit7 c) s"

definition lower_char :: "char \<Rightarrow> char" where
  "lower_char c =
     (case map_of (zip ''ABCDEFGHIJKLMNOPQRSTUVWXYZ'' ''abcdefghijklmnopqrstuvwxyz'') c of
        None \<Rightarrow> c
      | Some d \<Rightarrow> d)"

section \<open>The collaborators\<close>

text \<open>
  The handler reaches things outside the repository: the \<^verbatim>\<open>json\<close> module and the
  built-ins \<^verbatim>\<open>str\<close>, \<^verbatim>\<open>str.lower\<close> and \<^verbatim>\<open>print\<close>, the environment, the secret store
  and the pipeline backend. They are the fields of a record, so every theorem holds for
  whatever they do.
  \<^item> \<open>json_loads\<close>: the document parsed, or the exception raised; only
    \<open>JSONDecodeError\<close> is caught at lines 62 and 87;
  \<^item> \<open>json_dumps\<close>: total on the values the handler serialises;
  \<^item> \<open>py_str\<close>: \<^verbatim>\<open>str()\<close> of a value that is not a string, for the f-strings and the
    log lines;
  \<^item> \<open>str_lower\<close>: \<^verbatim>\<open>str.lower\<close> on text that is not ASCII;
  \<^item> \<open>stdout_rejects\<close>: whether the encoding of standard output cannot write a text
    that is not ASCII, which makes \<^verbatim>\<open>print\<close> raise;
  \<^item> \<open>secretsmanager\<close>: the answer of the store to a lookup by secret name (lines
    16-17);
  \<^item> \<open>environ\<close>: \<^verbatim>\<open>os.environ\<close>;
  \<^item> \<open>start_pipeline_execution\<close>: the backend is stateful, so its answer depends on
    the calls already made in this invocation as well as on the call itself.
\<close>

datatype secret_response = SecretString string | ResourceNotFoundException | SecretsFailure

datatype start_response = PipelineExecutionId string | StartFailure

datatype pipeline_call = StartPipelineExecution (call_name: json) (call_variables: json)

record world =
  json_loads :: "string \<Rightarrow> exn + json"
  json_dumps :: "json \<Rightarrow> string"
  py_str :: "json \<Rightarrow> string"
  str_lower :: "string \<Rightarrow> string"
  stdout_rejects :: "string \<Rightarrow> bool"
  secretsmanager :: "string \<Rightarrow> secret_response"
  environ :: "string \<Rightarrow> string option"
  start_pipeline_execution :: "pipeline_call list \<Rightarrow> pipeline_call \<Rightarrow> start_response"

text \<open>The inbound event as the transport delivers it (spec section 6): \<open>None\<close> is a
  key that is not there, a body that is there is a string, and headers that are there
  map names to string values. The response is the dictionary the handler returns;
  \<open>headers\<close> is \<open>None\<close> in the four responses that have no such key.\<close>

record event =
  event_body :: "string option"
  event_headers :: "(string \<times> string) list option"

record response =
  statusCode :: int
  body :: string
  headers :: "(string \<times> string) list option"

text \<open>\<^verbatim>\<open>s.lower()\<close>: on ASCII text the letters \<^verbatim>\<open>A-Z\<close> become \<^verbatim>\<open>a-z\<close>; on any other
  text it is what the built-in does.\<close>

definition lower :: "world \<Rightarrow> string \<Rightarrow> string" where
  "lower w s = (if is_ascii s then map lower_char s else str_lower w s)"

text \<open>\<^verbatim>\<open>print(text)\<close> raises \<^verbatim>\<open>UnicodeEncodeError\<close> when standard output cannot encode
  the text; ASCII text can always be written.\<close>

definition print_raises :: "world \<Rightarrow> string \<Rightarrow> bool" where
  "print_raises w text = (\<not> is_ascii text \<and> stdout_rejects w text)"

text \<open>Line 16. The name of a secret is ASCII text (letters, digits and a few signs), so
  the store holds no secret under any other name: whatever it answers to such a lookup is
  no secret.\<close>

definition get_secret_value :: "world \<Rightarrow> string \<Rightarrow> secret_response" where
  "get_secret_value w name =
     (case secretsmanager w name of
        SecretString s \<Rightarrow> if is_ascii name then SecretString s else SecretsFailure
      | ResourceNotFoundException \<Rightarrow> ResourceNotFoundException
      | SecretsFailure \<Rightarrow> SecretsFailure)"

section \<open>Authentication (lines 9-39)\<close>

text \<open>A value inside an f-string or as an argument of \<^verbatim>\<open>print\<close>: a string is inserted
  as it is.\<close>

definition format_value :: "world \<Rightarrow> json \<Rightarrow> string" where
  "format_value w v = (case v of JStr s \<Rightarrow> s | _ \<Rightarrow> py_str w v)"

definition secret_name :: "world \<Rightarrow> json \<Rightarrow> string" where
  "secret_name w project = ''gitlab/'' @ format_value w project @ ''/token''"

definition get_project_token :: "world \<Rightarrow> json \<Rightarrow> exn + string option" where
  "get_project_token w project =
     (if print_raises w (''Looking up secret: '' @ secret_name w project)
      then Inl UnicodeEncodeError
      else
        (case get_secret_value w (secret_name w project) of
           SecretString s \<Rightarrow> Inr (Some s)
         | ResourceNotFoundException \<Rightarrow> Inr None
         | SecretsFailure \<Rightarrow> Inl SecretsManagerError))"

text \<open>Line 25: the comprehension stores the headers one after the other under their
  lowercased names, so a later header replaces an earlier one of the same lowercased name.\<close>

definition headers_lower :: "world \<Rightarrow> (string \<times> string) list \<Rightarrow> (string \<rightharpoonup> string)" where
  "headers_lower w hs = fold (\<lambda>(k, v) m. m(lower w k \<mapsto> v)) hs Map.empty"

definition header_token :: "world \<Rightarrow> (string \<times> string) list \<Rightarrow> string" where
  "header_token w hs =
     (case headers_lower w hs ''x-gitlab-token'' of None \<Rightarrow> [] | Some v \<Rightarrow> v)"

text \<open>Line 28: \<^verbatim>\<open>payload.get("project", {}).get("path_with_namespace")\<close>.\<close>

definition payload_project :: "json \<Rightarrow> exn + json" where
  "payload_project payload =
     (case py_get payload ''project'' (JObj []) of
        Inl e \<Rightarrow> Inl e
      | Inr p \<Rightarrow> py_get p ''path_with_namespace'' JNull)"

definition verify_gitlab_signature ::
  "world \<Rightarrow> json \<Rightarrow> (string \<times> string) list \<Rightarrow> exn + (bool \<times> string option)" where
  "verify_gitlab_signature w payload hs =
     (let token = header_token w hs in
      case payload_project payload of
        Inl e \<Rightarrow> Inl e
      | Inr project \<Rightarrow>
          if \<not> truthy project then Inr (False, Some ''No project info in payload'')
          else
            (case get_project_token w project of
               Inl e \<Rightarrow> Inl e
             | Inr expected_token \<Rightarrow>
                 if expected_token = None \<or> expected_token = Some [] then
                   Inr (False, Some (''No token registered for project '' @ format_value w project))
                 else if Some token \<noteq> expected_token then
                   Inr (False, Some ''Invalid secret token'')
                 else Inr (True, None)))"

section \<open>Triggering (lines 41-52 and 93-101)\<close>

definition start_call :: "json \<Rightarrow> json \<Rightarrow> pipeline_call" where
  "start_call pipeline_name branch_name =
     StartPipelineExecution pipeline_name
       (JList [JObj [(''name'', JStr ''SOURCE_BRANCH''), (''value'', branch_name)]])"

text \<open>Line 51.\<close>

definition triggered_line :: "world \<Rightarrow> json \<Rightarrow> json \<Rightarrow> string" where
  "triggered_line w pipeline_name branch_name =
     ''Triggered CodePipeline '' @ format_value w pipeline_name @ '' for branch '' @
     format_value w branch_name"

text \<open>The call is appended to the calls made so far, whether the backend accepts it
  or not; the execution id is what line 100 reads from the response. The log line is
  printed after the call.\<close>

definition trigger_pipeline ::
  "world \<Rightarrow> pipeline_call list \<Rightarrow> json \<Rightarrow> json \<Rightarrow> (exn + string) \<times> pipeline_call list" where
  "trigger_pipeline w calls pipeline_name branch_name =
     (let c = start_call pipeline_name branch_name in
      case start_pipeline_execution w calls c of
        StartFailure \<Rightarrow> (Inl CodePipelineError, calls @ [c])
      | PipelineExecutionId execution_id \<Rightarrow>
          if print_raises w (triggered_line w pipeline_name branch_name)
          then (Inl UnicodeEncodeError, calls @ [c])
          else (Inr execution_id, calls @ [c]))"

definition triggered_entry :: "string \<Rightarrow> json \<Rightarrow> string \<Rightarrow> json" where
  "triggered_entry label pipeline_name execution_id =
     JObj [(''label'', JStr label), (''pipeline'', pipeline_name),
           (''execution_id'', JStr execution_id)]"

text \<open>The loop of lines 93-101, over the label titles still to process, with the list
  \<open>triggered_pipelines\<close> built so far and the calls made so far.\<close>

fun trigger_labels ::
  "world \<Rightarrow> json \<Rightarrow> json \<Rightarrow> string list \<Rightarrow> json list \<Rightarrow> pipeline_call list
     \<Rightarrow> (exn + json list) \<times> pipeline_call list" where
  "trigger_labels w label_pipeline_mapping source_branch [] triggered_pipelines calls =
     (Inr triggered_pipelines, calls)"
| "trigger_labels w label_pipeline_mapping source_branch (label # rest) triggered_pipelines calls =
     (case py_get label_pipeline_mapping label JNull of
        Inl e \<Rightarrow> (Inl e, calls)
      | Inr pipeline_name \<Rightarrow>
          if truthy pipeline_name then
            (case trigger_pipeline w calls pipeline_name source_branch of
               (Inl e, calls') \<Rightarrow> (Inl e, calls')
             | (Inr execution_id, calls') \<Rightarrow>
                 trigger_labels w label_pipeline_mapping source_branch rest
                   (triggered_pipelines @ [triggered_entry label pipeline_name execution_id])
                   calls')
          else
            trigger_labels w label_pipeline_mapping source_branch rest triggered_pipelines calls)"

section \<open>The handler (lines 55-114)\<close>

text \<open>Line 76, for one label: \<^verbatim>\<open>label["title"].lower()\<close>. Subscripting anything but a
  dictionary with a string is a \<^verbatim>\<open>TypeError\<close>, a dictionary without the key a
  \<^verbatim>\<open>KeyError\<close>, and only a string has \<^verbatim>\<open>lower\<close>.\<close>

fun label_title :: "world \<Rightarrow> json \<Rightarrow> exn + string" where
  "label_title w (JObj kvs) =
     (case map_of kvs ''title'' of
        None \<Rightarrow> Inl KeyError
      | Some (JStr s) \<Rightarrow> Inr (lower w s)
      | Some _ \<Rightarrow> Inl AttributeError)"
| "label_title w _ = Inl TypeError"

fun titles_of :: "world \<Rightarrow> json list \<Rightarrow> exn + string list" where
  "titles_of w [] = Inr []"
| "titles_of w (label # rest) =
     (case label_title w label of
        Inl e \<Rightarrow> Inl e
      | Inr t \<Rightarrow> (case titles_of w rest of Inl e \<Rightarrow> Inl e | Inr ts \<Rightarrow> Inr (t # ts)))"

text \<open>Lines 75-76. The comprehension iterates over whatever \<open>labels\<close> is: a list gives
  its elements, a dictionary its keys and a string its characters, which are strings and
  cannot be subscripted with \<^verbatim>\<open>"title"\<close>; nothing else can be iterated.\<close>

definition payload_label_titles :: "world \<Rightarrow> json \<Rightarrow> exn + string list" where
  "payload_label_titles w payload =
     (case py_get payload ''labels'' (JList []) of
        Inl e \<Rightarrow> Inl e
      | Inr (JList labels) \<Rightarrow> titles_of w labels
      | Inr (JObj kvs) \<Rightarrow> titles_of w (map (\<lambda>kv. JStr (fst kv)) kvs)
      | Inr (JStr s) \<Rightarrow> (if s = [] then Inr [] else Inl TypeError)
      | Inr _ \<Rightarrow> Inl TypeError)"

text \<open>Line 77: the list is printed through \<^verbatim>\<open>str\<close>.\<close>

definition labels_line :: "world \<Rightarrow> string list \<Rightarrow> string" where
  "labels_line w label_titles =
     ''Labels extracted from merge request: '' @ py_str w (JList (map JStr label_titles))"

text \<open>Line 79: \<^verbatim>\<open>payload.get("object_attributes", {}).get("source_branch")\<close>.\<close>

definition payload_source_branch :: "json \<Rightarrow> exn + json" where
  "payload_source_branch payload =
     (case py_get payload ''object_attributes'' (JObj []) of
        Inl e \<Rightarrow> Inl e
      | Inr a \<Rightarrow> py_get a ''source_branch'' JNull)"

text \<open>Line 80.\<close>

definition branch_line :: "world \<Rightarrow> json \<Rightarrow> string" where
  "branch_line w source_branch = ''MR source branch: '' @ format_value w source_branch"

text \<open>Line 84.\<close>

definition label_pipeline_mapping_str :: "world \<Rightarrow> string" where
  "label_pipeline_mapping_str w =
     (case environ w ''LABEL_PIPELINE_MAPPING'' of None \<Rightarrow> ''{}'' | Some s \<Rightarrow> s)"

definition error_body :: "world \<Rightarrow> json \<Rightarrow> string" where
  "error_body w msg = json_dumps w (JObj [(''error'', msg)])"

definition message_body :: "world \<Rightarrow> string \<Rightarrow> string" where
  "message_body w msg = json_dumps w (JObj [(''message'', JStr msg)])"

definition content_type :: "(string \<times> string) list" where
  "content_type = [(''Content-Type'', ''application/json'')]"

text \<open>Lines 56 and 57.\<close>

definition request_body :: "event \<Rightarrow> string" where
  "request_body ev = (case event_body ev of None \<Rightarrow> ''{}'' | Some b \<Rightarrow> b)"

definition request_headers :: "event \<Rightarrow> (string \<times> string) list" where
  "request_headers ev = (case event_headers ev of None \<Rightarrow> [] | Some h \<Rightarrow> h)"

text \<open>The handler returns what the invocation returns or raises, and the trigger calls
  it has made, in order. The \<open>context\<close> argument is not read.\<close>

definition lambda_handler :: "world \<Rightarrow> event \<Rightarrow> (exn + response) \<times> pipeline_call list" where
  "lambda_handler w ev =
     (let body_str = request_body ev;
          hs = request_headers ev
      in
      case json_loads w body_str of
        Inl e \<Rightarrow>
          if e = JSONDecodeError then
            (Inr \<lparr>statusCode = 400, body = error_body w (JStr ''Invalid JSON payload''),
                  headers = None\<rparr>, [])
          else (Inl e, [])
      | Inr payload \<Rightarrow>
      (case verify_gitlab_signature w payload hs of
        Inl e \<Rightarrow> (Inl e, [])
      | Inr (is_valid, error_msg) \<Rightarrow>
      if \<not> is_valid then
        (Inr \<lparr>statusCode = 403,
              body = error_body w (case error_msg of None \<Rightarrow> JNull | Some m \<Rightarrow> JStr m),
              headers = None\<rparr>, [])
      else
      (case py_get payload ''object_kind'' JNull of
        Inl e \<Rightarrow> (Inl e, [])
      | Inr object_kind \<Rightarrow>
      if object_kind \<noteq> JStr ''merge_request'' then
        (Inr \<lparr>statusCode = 200, body = message_body w ''Not a merge request event'',
              headers = None\<rparr>, [])
      else
      (case payload_label_titles w payload of
        Inl e \<Rightarrow> (Inl e, [])
      | Inr label_titles \<Rightarrow>
      if print_raises w (labels_line w label_titles) then (Inl UnicodeEncodeError, [])
      else
      (case payload_source_branch payload of
        Inl e \<Rightarrow> (Inl e, [])
      | Inr source_branch \<Rightarrow>
      if print_raises w (branch_line w source_branch) then (Inl UnicodeEncodeError, [])
      else
      (case json_loads w (label_pipeline_mapping_str w) of
        Inl e \<Rightarrow>
          if e = JSONDecodeError then
            (Inr \<lparr>statusCode = 500,
                  body = error_body w (JStr ''Invalid LABEL_PIPELINE_MAPPING env var''),
                  headers = None\<rparr>, [])
          else (Inl e, [])
      | Inr label_pipeline_mapping \<Rightarrow>
      (case trigger_labels w label_pipeline_mapping source_branch label_titles [] [] of
        (Inl e, calls) \<Rightarrow> (Inl e, calls)
      | (Inr triggered_pipelines, calls) \<Rightarrow>
          if triggered_pipelines = [] then
            (Inr \<lparr>statusCode = 200,
                  body = message_body w ''No matching label for pipeline, skipped'',
                  headers = Some content_type\<rparr>, calls)
          else
            (Inr \<lparr>statusCode = 200,
                  body = json_dumps w (JObj [(''triggered_pipelines'', JList triggered_pipelines)]),
                  headers = Some content_type\<rparr>, calls))))))))"

section \<open>Notions of the specification\<close>

text \<open>A request is authenticated when its body parses and the verification of lines
  21-39 returns \<^verbatim>\<open>(True, None)\<close>; it is a merge-request event when line 71 finds the
  literal string.\<close>

definition authenticated :: "world \<Rightarrow> event \<Rightarrow> json \<Rightarrow> bool" where
  "authenticated w ev payload =
     (json_loads w (request_body ev) = Inr payload \<and>
      verify_gitlab_signature w payload (request_headers ev) = Inr (True, None))"

definition is_merge_request :: "json \<Rightarrow> bool" where
  "is_merge_request payload =
     (py_get payload ''object_kind'' JNull = Inr (JStr ''merge_request''))"

text \<open>The supplied token in the words of the specification: the value of the header
  whose name equals \<^verbatim>\<open>x-gitlab-token\<close> up to case, the empty string when there is none.
  When several names do, the last one in the order of the header map counts.\<close>

definition ci_equal :: "world \<Rightarrow> string \<Rightarrow> string \<Rightarrow> bool" where
  "ci_equal w a b = (lower w a = lower w b)"

definition supplied_token :: "world \<Rightarrow> (string \<times> string) list \<Rightarrow> string" where
  "supplied_token w hs =
     (case filter (\<lambda>kv. ci_equal w (fst kv) ''x-gitlab-token'') hs of
        [] \<Rightarrow> []
      | m # ms \<Rightarrow> snd (last (m # ms)))"

text \<open>\<open>project.path_with_namespace\<close> of a payload, \<open>None\<close> when it is absent.\<close>

definition path_with_namespace :: "json \<Rightarrow> json option" where
  "path_with_namespace payload =
     (case payload of
        JObj kvs \<Rightarrow>
          (case map_of kvs ''project'' of
             Some (JObj pkvs) \<Rightarrow> map_of pkvs ''path_with_namespace''
           | _ \<Rightarrow> None)
      | _ \<Rightarrow> None)"

text \<open>Authentication in the words of the specification (section 4.1): no project, no
  registered secret, and otherwise the comparison of the token with the secret. A failure
  of the secret store propagates (section 5).\<close>

definition authenticate_spec ::
  "world \<Rightarrow> json \<Rightarrow> (string \<times> string) list \<Rightarrow> exn + (bool \<times> string option)" where
  "authenticate_spec w payload hs =
     (case path_with_namespace payload of
        None \<Rightarrow> Inr (False, Some ''No project info in payload'')
      | Some project \<Rightarrow>
          (case get_secret_value w (''gitlab/'' @ format_value w project @ ''/token'') of
             ResourceNotFoundException \<Rightarrow>
               Inr (False, Some (''No token registered for project '' @ format_value w project))
           | SecretsFailure \<Rightarrow> Inl SecretsManagerError
           | SecretString secret \<Rightarrow>
               if supplied_token w hs = secret then Inr (True, None)
               else Inr (False, Some ''Invalid secret token'')))"

text \<open>The same with the amendments: a project path that is there but falsy (null or
  empty) counts as no project; the name of the secret is written to the log before the
  lookup, and a name that standard output cannot write ends the request with the encoding
  error; an empty secret counts as no registered secret.\<close>

definition authenticate_amended ::
  "world \<Rightarrow> json \<Rightarrow> (string \<times> string) list \<Rightarrow> exn + (bool \<times> string option)" where
  "authenticate_amended w payload hs =
     (case path_with_namespace payload of
        None \<Rightarrow> Inr (False, Some ''No project info in payload'')
      | Some project \<Rightarrow>
          if \<not> truthy project then Inr (False, Some ''No project info in payload'')
          else if print_raises w
                    (''Looking up secret: gitlab/'' @ format_value w project @ ''/token'')
          then Inl UnicodeEncodeError
          else
            (case get_secret_value w (''gitlab/'' @ format_value w project @ ''/token'') of
               ResourceNotFoundException \<Rightarrow>
                 Inr (False, Some (''No token registered for project '' @ format_value w project))
             | SecretsFailure \<Rightarrow> Inl SecretsManagerError
             | SecretString secret \<Rightarrow>
                 if secret = [] then
                   Inr (False, Some (''No token registered for project '' @ format_value w project))
                 else if supplied_token w hs = secret then Inr (True, None)
                 else Inr (False, Some ''Invalid secret token'')))"

text \<open>The shape of a webhook payload (sections 3 and 6), every field optional: an
  object whose \<open>project\<close> and \<open>object_attributes\<close> are objects and whose \<open>labels\<close> is a
  list of objects with a string \<open>title\<close>.\<close>

definition is_object :: "json \<Rightarrow> bool" where
  "is_object j = (case j of JObj kvs \<Rightarrow> True | _ \<Rightarrow> False)"

definition title_of :: "json \<Rightarrow> string option" where
  "title_of l =
     (case l of
        JObj kvs \<Rightarrow> (case map_of kvs ''title'' of Some (JStr s) \<Rightarrow> Some s | _ \<Rightarrow> None)
      | _ \<Rightarrow> None)"

definition label_shaped :: "json \<Rightarrow> bool" where
  "label_shaped l = (title_of l \<noteq> None)"

definition labels_shaped :: "json \<Rightarrow> bool" where
  "labels_shaped v = (case v of JList ls \<Rightarrow> list_all label_shaped ls | _ \<Rightarrow> False)"

definition field_shaped :: "(json \<Rightarrow> bool) \<Rightarrow> (string \<times> json) list \<Rightarrow> string \<Rightarrow> bool" where
  "field_shaped P kvs k = (case map_of kvs k of None \<Rightarrow> True | Some v \<Rightarrow> P v)"

definition webhook_shaped :: "json \<Rightarrow> bool" where
  "webhook_shaped payload =
     (case payload of
        JObj kvs \<Rightarrow>
          field_shaped is_object kvs ''project'' \<and>
          field_shaped is_object kvs ''object_attributes'' \<and>
          field_shaped labels_shaped kvs ''labels''
      | _ \<Rightarrow> False)"

text \<open>The labels of a payload, their lowercased titles in payload order (a title that
  occurs twice is there twice), and \<open>object_attributes.source_branch\<close>, which is
  \<^verbatim>\<open>None\<close> when it is absent.\<close>

definition labels_of :: "json \<Rightarrow> json list" where
  "labels_of payload =
     (case payload of
        JObj kvs \<Rightarrow> (case map_of kvs ''labels'' of Some (JList ls) \<Rightarrow> ls | _ \<Rightarrow> [])
      | _ \<Rightarrow> [])"

definition label_titles :: "world \<Rightarrow> json \<Rightarrow> string list" where
  "label_titles w payload = map (lower w) (List.map_filter title_of (labels_of payload))"

definition source_branch :: "json \<Rightarrow> json" where
  "source_branch payload =
     (case payload of
        JObj kvs \<Rightarrow>
          (case map_of kvs ''object_attributes'' of
             Some (JObj akvs) \<Rightarrow>
               (case map_of akvs ''source_branch'' of None \<Rightarrow> JNull | Some b \<Rightarrow> b)
           | _ \<Rightarrow> JNull)
      | _ \<Rightarrow> JNull)"

text \<open>The labels that match, with their pipelines, in label order: a title matches when
  the mapping holds a pipeline name for it (a truthy value; line 95).\<close>

definition pipeline_for :: "(string \<times> json) list \<Rightarrow> string \<Rightarrow> json option" where
  "pipeline_for kvs label =
     (case map_of kvs label of
        None \<Rightarrow> None
      | Some p \<Rightarrow> if truthy p then Some p else None)"

definition matches :: "(string \<times> json) list \<Rightarrow> string list \<Rightarrow> (string \<times> json) list" where
  "matches kvs labels =
     List.map_filter (\<lambda>l. map_option (\<lambda>p. (l, p)) (pipeline_for kvs l)) labels"

text \<open>What the backend answers to a sequence of calls made one after the other, after
  the calls \<open>done\<close>: the execution ids, or \<open>None\<close> when it refuses one of them.\<close>

fun backend_ids :: "world \<Rightarrow> pipeline_call list \<Rightarrow> pipeline_call list \<Rightarrow> string list option" where
  "backend_ids w done [] = Some []"
| "backend_ids w done (c # cs) =
     (case start_pipeline_execution w done c of
        StartFailure \<Rightarrow> None
      | PipelineExecutionId i \<Rightarrow> map_option (\<lambda>ids. i # ids) (backend_ids w (done @ [c]) cs))"

text \<open>The log lines of a dispatch (lines 77, 80 and 51) are all written.\<close>

definition log_written :: "world \<Rightarrow> json \<Rightarrow> bool" where
  "log_written w payload =
     (\<not> print_raises w
          (''Labels extracted from merge request: '' @
           py_str w (JList (map JStr (label_titles w payload)))) \<and>
      \<not> print_raises w (''MR source branch: '' @ format_value w (source_branch payload)))"

definition triggers_logged :: "world \<Rightarrow> json \<Rightarrow> (string \<times> json) list \<Rightarrow> bool" where
  "triggers_logged w payload mapping =
     list_all
       (\<lambda>lp. \<not> print_raises w
                (''Triggered CodePipeline '' @ format_value w (snd lp) @ '' for branch '' @
                 format_value w (source_branch payload)))
       (matches mapping (label_titles w payload))"

text \<open>The invocation gets as far as line 84 with these label titles and this source
  branch.\<close>

definition reaches_line_84 :: "world \<Rightarrow> event \<Rightarrow> json \<Rightarrow> string list \<Rightarrow> json \<Rightarrow> bool" where
  "reaches_line_84 w ev payload titles branch =
     (authenticated w ev payload \<and> is_merge_request payload \<and>
      payload_label_titles w payload = Inr titles \<and>
      \<not> print_raises w (labels_line w titles) \<and>
      payload_source_branch payload = Inr branch \<and>
      \<not> print_raises w (branch_line w branch))"

text \<open>The exceptions that the specification lets through (section 7, e).\<close>

definition backend_failure :: "exn \<Rightarrow> bool" where
  "backend_failure e = (e = SecretsManagerError \<or> e = CodePipelineError)"

section \<open>A test double\<close>

text \<open>Concrete collaborators for the scenarios of the specification (section 8): one
  project with the secret \<^verbatim>\<open>secret123\<close>, a backend that numbers its executions, and a
  parser that knows the documents below.\<close>

definition body_q1 :: string where
  \<open>body_q1 = ''{"object_kind":"merge_request","project":{"path_with_namespace":"g/p"},"object_attributes":{"source_branch":"feature-x"},"labels":[{"title":"Q1"}]}''\<close>

definition payload_q1 :: json where
  "payload_q1 = JObj
     [(''object_kind'', JStr ''merge_request''),
      (''project'', JObj [(''path_with_namespace'', JStr ''g/p'')]),
      (''object_attributes'', JObj [(''source_branch'', JStr ''feature-x'')]),
      (''labels'', JList [JObj [(''title'', JStr ''Q1'')]])]"

definition body_four :: string where
  \<open>body_four = ''{"object_kind":"merge_request","project":{"path_with_namespace":"g/p"},"object_attributes":{"target_branch":"main","source_branch":"feature-x"},"labels":[{"title":"Q1"},{"title":"Docs"},{"title":"Q2"},{"title":"q1"}]}''\<close>

definition payload_four :: json where
  "payload_four = JObj
     [(''object_kind'', JStr ''merge_request''),
      (''project'', JObj [(''path_with_namespace'', JStr ''g/p'')]),
      (''object_attributes'',
         JObj [(''target_branch'', JStr ''main''), (''source_branch'', JStr ''feature-x'')]),
      (''labels'', JList [JObj [(''title'', JStr ''Q1'')], JObj [(''title'', JStr ''Docs'')],
                         JObj [(''title'', JStr ''Q2'')], JObj [(''title'', JStr ''q1'')]])]"

definition body_docs :: string where
  \<open>body_docs = ''{"object_kind":"merge_request","project":{"path_with_namespace":"g/p"},"labels":[{"title":"Docs"}]}''\<close>

definition payload_docs :: json where
  "payload_docs = JObj
     [(''object_kind'', JStr ''merge_request''),
      (''project'', JObj [(''path_with_namespace'', JStr ''g/p'')]),
      (''labels'', JList [JObj [(''title'', JStr ''Docs'')]])]"

definition body_note :: string where
  \<open>body_note = ''{"object_kind":"note","project":{"path_with_namespace":"g/p"},"labels":[{"title":"Q1"}]}''\<close>

definition payload_note :: json where
  "payload_note = JObj
     [(''object_kind'', JStr ''note''),
      (''project'', JObj [(''path_with_namespace'', JStr ''g/p'')]),
      (''labels'', JList [JObj [(''title'', JStr ''Q1'')]])]"

definition body_plain_second :: string where
  \<open>body_plain_second = ''{"object_kind":"merge_request","project":{"path_with_namespace":"g/p"},"labels":[{"title":"Q1"},"Q2"]}''\<close>

definition payload_plain_second :: json where
  "payload_plain_second = JObj
     [(''object_kind'', JStr ''merge_request''),
      (''project'', JObj [(''path_with_namespace'', JStr ''g/p'')]),
      (''labels'', JList [JObj [(''title'', JStr ''Q1'')], JStr ''Q2''])]"

definition body_numeric_title :: string where
  \<open>body_numeric_title = ''{"object_kind":"merge_request","project":{"path_with_namespace":"g/p"},"labels":[{"title":"Q1"},{"title":2}]}''\<close>

definition payload_numeric_title :: json where
  "payload_numeric_title = JObj
     [(''object_kind'', JStr ''merge_request''),
      (''project'', JObj [(''path_with_namespace'', JStr ''g/p'')]),
      (''labels'', JList [JObj [(''title'', JStr ''Q1'')], JObj [(''title'', JInt 2)]])]"

definition body_null_attributes :: string where
  \<open>body_null_attributes = ''{"object_kind":"merge_request","project":{"path_with_namespace":"g/p"},"object_attributes":null,"labels":[]}''\<close>

definition payload_null_attributes :: json where
  "payload_null_attributes = JObj
     [(''object_kind'', JStr ''merge_request''),
      (''project'', JObj [(''path_with_namespace'', JStr ''g/p'')]),
      (''object_attributes'', JNull),
      (''labels'', JList [])]"

definition body_null_labels :: string where
  \<open>body_null_labels = ''{"object_kind":"merge_request","project":{"path_with_namespace":"g/p"},"labels":null}''\<close>

definition payload_null_labels :: json where
  "payload_null_labels = JObj
     [(''object_kind'', JStr ''merge_request''),
      (''project'', JObj [(''path_with_namespace'', JStr ''g/p'')]),
      (''labels'', JNull)]"

definition body_null_project :: string where
  \<open>body_null_project = ''{"object_kind":"merge_request","project":null}''\<close>

definition payload_null_project :: json where
  "payload_null_project = JObj [(''object_kind'', JStr ''merge_request''), (''project'', JNull)]"

definition body_plain_labels :: string where
  \<open>body_plain_labels = ''{"object_kind":"merge_request","project":{"path_with_namespace":"g/p"},"labels":["Q1"]}''\<close>

definition payload_plain_labels :: json where
  "payload_plain_labels = JObj
     [(''object_kind'', JStr ''merge_request''),
      (''project'', JObj [(''path_with_namespace'', JStr ''g/p'')]),
      (''labels'', JList [JStr ''Q1''])]"

definition payload_empty_path :: json where
  "payload_empty_path = JObj [(''project'', JObj [(''path_with_namespace'', JStr [])])]"

definition mapping_text :: string where
  \<open>mapping_text = ''{"q1":"PipelineQ1","q2":"PipelineQ1"}''\<close>

definition mapping_q :: "(string \<times> json) list" where
  "mapping_q = [(''q1'', JStr ''PipelineQ1''), (''q2'', JStr ''PipelineQ1'')]"

definition example_documents :: "(string \<times> json) list" where
  "example_documents =
     [(''{}'', JObj []),
      (body_q1, payload_q1),
      (body_four, payload_four),
      (body_docs, payload_docs),
      (body_note, payload_note),
      (body_plain_second, payload_plain_second),
      (body_numeric_title, payload_numeric_title),
      (body_null_attributes, payload_null_attributes),
      (body_null_labels, payload_null_labels),
      (body_null_project, payload_null_project),
      (body_plain_labels, payload_plain_labels),
      (mapping_text, JObj mapping_q)]"

definition example_loads :: "string \<Rightarrow> exn + json" where
  "example_loads s =
     (case map_of example_documents s of None \<Rightarrow> Inl JSONDecodeError | Some j \<Rightarrow> Inr j)"

text \<open>A serialiser for the test double; it writes numbers as placeholders.\<close>

primrec example_dumps :: "json \<Rightarrow> string" where
  "example_dumps JNull = ''null''"
| "example_dumps (JBool b) = (if b then ''true'' else ''false'')"
| "example_dumps (JInt i) = ''<int>''"
| "example_dumps (JFloat f) = ''<float>''"
| "example_dumps (JStr s) = CHR 0x22 # s @ [CHR 0x22]"
| "example_dumps (JList xs) = ''['' @ concat (map example_dumps xs) @ '']''"
| "example_dumps (JObj kvs) =
     ''{'' @ concat (map (\<lambda>kv. fst kv @ '':'' @ snd kv) (map (map_prod id example_dumps) kvs)) @ ''}''"

text \<open>Its standard output cannot write a text with the byte that starts a surrogate.\<close>

definition example_world :: world where
  "example_world =
     \<lparr>json_loads = example_loads,
      json_dumps = example_dumps,
      py_str = example_dumps,
      str_lower = (\<lambda>s. s),
      stdout_rejects = (\<lambda>t. CHR 0xED \<in> set t),
      secretsmanager =
        (\<lambda>k. if k = ''gitlab/g/p/token'' then SecretString ''secret123''
             else ResourceNotFoundException),
      environ = (\<lambda>k. if k = ''LABEL_PIPELINE_MAPPING'' then Some mapping_text else None),
      start_pipeline_execution =
        (\<lambda>done c. PipelineExecutionId (''exec-'' @ replicate (Suc (length done)) CHR ''I''))\<rparr>"

definition request :: "string \<Rightarrow> string \<Rightarrow> event" where
  "request b token =
     \<lparr>event_body = Some b, event_headers = Some [(''X-Gitlab-Token'', token)]\<rparr>"

text \<open>Three variants: a secret registered under the name that an empty project path
  gives, a configuration that is not JSON, and no configuration at all.\<close>

definition empty_path_world :: world where
  "empty_path_world =
     example_world\<lparr>secretsmanager :=
       (\<lambda>k. if k = ''gitlab//token'' then SecretString ''secret123''
            else ResourceNotFoundException)\<rparr>"

definition broken_config_world :: world where
  "broken_config_world =
     example_world\<lparr>environ :=
       (\<lambda>k. if k = ''LABEL_PIPELINE_MAPPING'' then Some ''{q1: PipelineQ1'' else None)\<rparr>"

definition unset_config_world :: world where
  "unset_config_world = example_world\<lparr>environ := (\<lambda>k. None)\<rparr>"

section \<open>Stages of the handler\<close>

text \<open>One lemma for each place where \<open>lambda_handler\<close> returns or raises.\<close>

lemma verify_Inr_obj: "verify_gitlab_signature w payload hs = Inr r \<Longrightarrow> \<exists>kvs. payload = JObj kvs"
  by (cases payload) (simp_all add: verify_gitlab_signature_def payload_project_def)

lemma verify_True_None: "verify_gitlab_signature w payload hs = Inr (True, m) \<Longrightarrow> m = None"
  by (auto simp: verify_gitlab_signature_def Let_def split: sum.splits if_splits)

lemma verify_raises:
  "payload_project payload = Inr p \<Longrightarrow> verify_gitlab_signature w payload hs = Inl e \<Longrightarrow>
   e = SecretsManagerError \<or> e = UnicodeEncodeError"
  by (auto simp: verify_gitlab_signature_def get_project_token_def
      split: if_splits sum.splits secret_response.splits)

lemma handler_parse_error:
  "json_loads w (request_body ev) = Inl JSONDecodeError \<Longrightarrow>
   lambda_handler w ev =
     (Inr \<lparr>statusCode = 400, body = error_body w (JStr ''Invalid JSON payload''), headers = None\<rparr>, [])"
  by (simp add: lambda_handler_def)

lemma handler_parse_raises:
  "json_loads w (request_body ev) = Inl e \<Longrightarrow> e \<noteq> JSONDecodeError \<Longrightarrow>
   lambda_handler w ev = (Inl e, [])"
  by (simp add: lambda_handler_def)

lemma handler_auth_raises:
  "json_loads w (request_body ev) = Inr payload \<Longrightarrow>
   verify_gitlab_signature w payload (request_headers ev) = Inl e \<Longrightarrow>
   lambda_handler w ev = (Inl e, [])"
  by (simp add: lambda_handler_def)

lemma handler_forbidden:
  "json_loads w (request_body ev) = Inr payload \<Longrightarrow>
   verify_gitlab_signature w payload (request_headers ev) = Inr (False, m) \<Longrightarrow>
   lambda_handler w ev =
     (Inr \<lparr>statusCode = 403,
           body = error_body w (case m of None \<Rightarrow> JNull | Some r \<Rightarrow> JStr r),
           headers = None\<rparr>, [])"
  by (simp add: lambda_handler_def)

lemma handler_not_merge_request:
  "authenticated w ev payload \<Longrightarrow> \<not> is_merge_request payload \<Longrightarrow>
   lambda_handler w ev =
     (Inr \<lparr>statusCode = 200, body = message_body w ''Not a merge request event'',
           headers = None\<rparr>, [])"
  by (auto simp: lambda_handler_def authenticated_def is_merge_request_def
           dest!: verify_Inr_obj)

lemma handler_titles_raise:
  "authenticated w ev payload \<Longrightarrow> is_merge_request payload \<Longrightarrow>
   payload_label_titles w payload = Inl e \<Longrightarrow> lambda_handler w ev = (Inl e, [])"
  by (simp add: lambda_handler_def authenticated_def is_merge_request_def)

lemma handler_titles_print:
  "authenticated w ev payload \<Longrightarrow> is_merge_request payload \<Longrightarrow>
   payload_label_titles w payload = Inr ls \<Longrightarrow> print_raises w (labels_line w ls) \<Longrightarrow>
   lambda_handler w ev = (Inl UnicodeEncodeError, [])"
  by (simp add: lambda_handler_def authenticated_def is_merge_request_def)

lemma handler_branch_raises:
  "authenticated w ev payload \<Longrightarrow> is_merge_request payload \<Longrightarrow>
   payload_label_titles w payload = Inr ls \<Longrightarrow> \<not> print_raises w (labels_line w ls) \<Longrightarrow>
   payload_source_branch payload = Inl e \<Longrightarrow> lambda_handler w ev = (Inl e, [])"
  by (simp add: lambda_handler_def authenticated_def is_merge_request_def)

lemma handler_branch_print:
  "authenticated w ev payload \<Longrightarrow> is_merge_request payload \<Longrightarrow>
   payload_label_titles w payload = Inr ls \<Longrightarrow> \<not> print_raises w (labels_line w ls) \<Longrightarrow>
   payload_source_branch payload = Inr b \<Longrightarrow> print_raises w (branch_line w b) \<Longrightarrow>
   lambda_handler w ev = (Inl UnicodeEncodeError, [])"
  by (simp add: lambda_handler_def authenticated_def is_merge_request_def)

lemma handler_bad_mapping:
  "reaches_line_84 w ev payload ls b \<Longrightarrow>
   json_loads w (label_pipeline_mapping_str w) = Inl JSONDecodeError \<Longrightarrow>
   lambda_handler w ev =
     (Inr \<lparr>statusCode = 500,
           body = error_body w (JStr ''Invalid LABEL_PIPELINE_MAPPING env var''),
           headers = None\<rparr>, [])"
  by (simp add: lambda_handler_def reaches_line_84_def authenticated_def is_merge_request_def)

lemma handler_mapping_raises:
  "reaches_line_84 w ev payload ls b \<Longrightarrow>
   json_loads w (label_pipeline_mapping_str w) = Inl e \<Longrightarrow> e \<noteq> JSONDecodeError \<Longrightarrow>
   lambda_handler w ev = (Inl e, [])"
  by (simp add: lambda_handler_def reaches_line_84_def authenticated_def is_merge_request_def)

lemma handler_dispatch:
  "reaches_line_84 w ev payload ls b \<Longrightarrow>
   json_loads w (label_pipeline_mapping_str w) = Inr mp \<Longrightarrow>
   lambda_handler w ev =
     (case trigger_labels w mp b ls [] [] of
        (Inl e, calls) \<Rightarrow> (Inl e, calls)
      | (Inr tps, calls) \<Rightarrow>
          if tps = [] then
            (Inr \<lparr>statusCode = 200,
                  body = message_body w ''No matching label for pipeline, skipped'',
                  headers = Some content_type\<rparr>, calls)
          else
            (Inr \<lparr>statusCode = 200,
                  body = json_dumps w (JObj [(''triggered_pipelines'', JList tps)]),
                  headers = Some content_type\<rparr>, calls))"
  by (simp add: lambda_handler_def reaches_line_84_def authenticated_def is_merge_request_def)

text \<open>How far an invocation gets: it ends before line 84, or reaches it.\<close>

lemma handler_stages:
  obtains
    (parse_error) "json_loads w (request_body ev) = Inl JSONDecodeError"
  | (parse_raises) e where "json_loads w (request_body ev) = Inl e" "e \<noteq> JSONDecodeError"
  | (auth_raises) payload e where "json_loads w (request_body ev) = Inr payload"
      "verify_gitlab_signature w payload (request_headers ev) = Inl e"
  | (forbidden) payload m where "json_loads w (request_body ev) = Inr payload"
      "verify_gitlab_signature w payload (request_headers ev) = Inr (False, m)"
  | (other_kind) payload where "authenticated w ev payload" "\<not> is_merge_request payload"
  | (titles_raise) payload e where "authenticated w ev payload" "is_merge_request payload"
      "payload_label_titles w payload = Inl e"
  | (titles_print) payload ls where "authenticated w ev payload" "is_merge_request payload"
      "payload_label_titles w payload = Inr ls" "print_raises w (labels_line w ls)"
  | (branch_raises) payload ls e where "authenticated w ev payload" "is_merge_request payload"
      "payload_label_titles w payload = Inr ls" "\<not> print_raises w (labels_line w ls)"
      "payload_source_branch payload = Inl e"
  | (branch_print) payload ls b where "authenticated w ev payload" "is_merge_request payload"
      "payload_label_titles w payload = Inr ls" "\<not> print_raises w (labels_line w ls)"
      "payload_source_branch payload = Inr b" "print_raises w (branch_line w b)"
  | (reached) payload ls b where "reaches_line_84 w ev payload ls b"
proof (cases "json_loads w (request_body ev)")
  case (Inl e)
  then show ?thesis
    using parse_error parse_raises by (cases "e = JSONDecodeError") auto
next
  case parsed: (Inr payload)
  show ?thesis
  proof (cases "verify_gitlab_signature w payload (request_headers ev)")
    case (Inl e)
    with parsed auth_raises show ?thesis by blast
  next
    case (Inr res)
    obtain ok m where res: "res = (ok, m)" by (cases res)
    show ?thesis
    proof (cases ok)
      case False
      with Inr res parsed forbidden show ?thesis by auto
    next
      case True
      with Inr res verify_True_None parsed have auth: "authenticated w ev payload"
        by (auto simp: authenticated_def)
      show ?thesis
      proof (cases "is_merge_request payload")
        case False
        with auth other_kind show ?thesis by blast
      next
        case mr: True
        show ?thesis
        proof (cases "payload_label_titles w payload")
          case (Inl e)
          with auth mr titles_raise show ?thesis by blast
        next
          case titles: (Inr ls)
          show ?thesis
          proof (cases "print_raises w (labels_line w ls)")
            case True
            with auth mr titles titles_print show ?thesis by blast
          next
            case printed: False
            show ?thesis
            proof (cases "payload_source_branch payload")
              case (Inl e)
              with auth mr titles printed branch_raises show ?thesis by blast
            next
              case branch: (Inr b)
              show ?thesis
              proof (cases "print_raises w (branch_line w b)")
                case True
                with auth mr titles printed branch branch_print show ?thesis by blast
              next
                case False
                with auth mr titles printed branch have "reaches_line_84 w ev payload ls b"
                  by (simp add: reaches_line_84_def)
                with reached show ?thesis by blast
              qed
            qed
          qed
        qed
      qed
    qed
  qed
qed

lemma reaches_unique:
  "reaches_line_84 w ev payload ls b \<Longrightarrow> reaches_line_84 w ev payload' ls' b' \<Longrightarrow>
   payload' = payload \<and> ls' = ls \<and> b' = b"
  by (auto simp: reaches_line_84_def authenticated_def)

text \<open>When the configuration is malformed JSON, the handler answers 500 exactly when it
  got as far as line 84, and it triggers nothing.\<close>

lemma handler_bad_mapping_iff:
  assumes "json_loads w (label_pipeline_mapping_str w) = Inl JSONDecodeError"
  shows "lambda_handler w ev =
      (Inr \<lparr>statusCode = 500,
            body = error_body w (JStr ''Invalid LABEL_PIPELINE_MAPPING env var''),
            headers = None\<rparr>, [])
    \<longleftrightarrow> (\<exists>payload ls b. reaches_line_84 w ev payload ls b)"
    (is "?answer \<longleftrightarrow> ?reached")
proof
  assume ?reached
  then show ?answer
    using handler_bad_mapping [OF _ assms] by blast
next
  assume r: ?answer
  show ?reached
  proof (cases rule: handler_stages [of w ev])
    case parse_error
    from handler_parse_error [OF this] r show ?thesis by simp
  next
    case (parse_raises e)
    from handler_parse_raises [OF this] r show ?thesis by simp
  next
    case (auth_raises payload e)
    from handler_auth_raises [OF this] r show ?thesis by simp
  next
    case (forbidden payload m)
    from handler_forbidden [OF this] r show ?thesis by simp
  next
    case (other_kind payload)
    from handler_not_merge_request [OF this] r show ?thesis by simp
  next
    case (titles_raise payload e)
    from handler_titles_raise [OF this] r show ?thesis by simp
  next
    case (titles_print payload ls)
    from handler_titles_print [OF this] r show ?thesis by simp
  next
    case (branch_raises payload ls e)
    from handler_branch_raises [OF this] r show ?thesis by simp
  next
    case (branch_print payload ls b)
    from handler_branch_print [OF this] r show ?thesis by simp
  next
    case (reached payload ls b)
    then show ?thesis by blast
  qed
qed

lemma handler_bad_mapping_calls:
  "json_loads w (label_pipeline_mapping_str w) = Inl JSONDecodeError \<Longrightarrow>
   snd (lambda_handler w ev) = []"
  by (auto simp: lambda_handler_def Let_def split: option.splits sum.splits prod.splits)

text \<open>No response before line 84 has status 500.\<close>

lemma handler_status_500:
  assumes "fst (lambda_handler w ev) = Inr r" and "statusCode r = 500"
  shows "json_loads w (label_pipeline_mapping_str w) = Inl JSONDecodeError"
  using assms
  by (auto simp: lambda_handler_def Let_def
      split: option.splits sum.splits prod.splits if_splits)

section \<open>The token\<close>

lemma is_ascii_append [simp]: "is_ascii (a @ b) \<longleftrightarrow> is_ascii a \<and> is_ascii b"
  by (simp add: is_ascii_def)

lemma get_secret_ascii: "get_secret_value w name = SecretString s \<Longrightarrow> is_ascii name"
  by (auto simp: get_secret_value_def split: secret_response.splits if_splits)

lemma lookup_printed:
  "get_secret_value w name = SecretString s \<Longrightarrow> \<not> print_raises w (''Looking up secret: '' @ name)"
  by (auto simp: print_raises_def dest!: get_secret_ascii) (simp add: is_ascii_def)

lemma fold_headers_lookup:
  "fold (\<lambda>(k, v) m. m(f k \<mapsto> v)) hs m0 key =
     (case filter (\<lambda>kv. f (fst kv) = key) hs of
        [] \<Rightarrow> m0 key
      | x # xs \<Rightarrow> Some (snd (last (x # xs))))"
    (is "fold ?f hs m0 key = ?rhs hs m0")
proof (induction hs arbitrary: m0)
  case Nil
  then show ?case by simp
next
  case (Cons h hs)
  obtain k v where h: "h = (k, v)" by (cases h)
  have "fold ?f (h # hs) m0 key = fold ?f hs (m0(f k \<mapsto> v)) key"
    by (simp add: h)
  also have "\<dots> = ?rhs hs (m0(f k \<mapsto> v))"
    by (rule Cons.IH)
  also have "\<dots> = ?rhs (h # hs) m0"
    by (cases "filter (\<lambda>kv. f (fst kv) = key) hs") (auto simp: h)
  finally show ?case .
qed

lemma lower_token_name: "lower w ''x-gitlab-token'' = ''x-gitlab-token''"
  by (simp add: lower_def is_ascii_def lower_char_def)

lemma header_token_supplied: "header_token w hs = supplied_token w hs"
  by (simp add: header_token_def headers_lower_def supplied_token_def ci_equal_def
      lower_token_name fold_headers_lookup split: list.splits)

lemma path_payload_project:
  "path_with_namespace payload = Some p \<Longrightarrow> payload_project payload = Inr p"
  by (auto simp: path_with_namespace_def payload_project_def split: json.splits option.splits)

section \<open>The loop\<close>

lemma matches_Nil: "matches kvs [] = []"
  by (simp add: matches_def)

lemma matches_Cons:
  "matches kvs (l # ls) =
     (case pipeline_for kvs l of None \<Rightarrow> matches kvs ls | Some p \<Rightarrow> (l, p) # matches kvs ls)"
  by (simp add: matches_def split: option.splits)

lemma matches_titles:
  "map fst (matches mapping titles) =
     filter (\<lambda>t. \<exists>p. map_of mapping t = Some p \<and> truthy p) titles"
  by (induction titles) (auto simp: matches_Nil matches_Cons pipeline_for_def split: option.splits)

lemma backend_ids_length: "backend_ids w d cs = Some ids \<Longrightarrow> length ids = length cs"
  by (induction cs arbitrary: d ids) (auto split: start_response.splits)

lemma trigger_labels_ids:
  "list_all (\<lambda>lp. \<not> print_raises w (triggered_line w (snd lp) b)) (matches kvs ls) \<Longrightarrow>
   backend_ids w calls (map (\<lambda>lp. start_call (snd lp) b) (matches kvs ls)) = Some ids \<Longrightarrow>
   trigger_labels w (JObj kvs) b ls acc calls =
     (Inr (acc @ map (\<lambda>(lp, i). triggered_entry (fst lp) (snd lp) i) (zip (matches kvs ls) ids)),
      calls @ map (\<lambda>lp. start_call (snd lp) b) (matches kvs ls))"
proof (induction ls arbitrary: acc calls ids)
  case Nil
  then show ?case by (simp add: matches_Nil)
next
  case (Cons l ls)
  show ?case
  proof (cases "pipeline_for kvs l")
    case None
    then have skip: "map_of kvs l = None \<or> (\<exists>p. map_of kvs l = Some p \<and> \<not> truthy p)"
      by (auto simp: pipeline_for_def split: option.splits if_splits)
    from Cons.prems None
    have "list_all (\<lambda>lp. \<not> print_raises w (triggered_line w (snd lp) b)) (matches kvs ls)"
      and "backend_ids w calls (map (\<lambda>lp. start_call (snd lp) b) (matches kvs ls)) = Some ids"
      by (simp_all add: matches_Cons)
    from Cons.IH [OF this] skip None show ?thesis
      by (auto simp: matches_Cons)
  next
    case (Some p)
    then have hit: "map_of kvs l = Some p" "truthy p"
      by (auto simp: pipeline_for_def split: option.splits if_splits)
    from Cons.prems(1) Some
    have printed: "\<not> print_raises w (triggered_line w p b)"
      and others: "list_all (\<lambda>lp. \<not> print_raises w (triggered_line w (snd lp) b)) (matches kvs ls)"
      by (simp_all add: matches_Cons)
    from Cons.prems(2) Some obtain i rest where
      i: "start_pipeline_execution w calls (start_call p b) = PipelineExecutionId i" and
      rest: "backend_ids w (calls @ [start_call p b])
               (map (\<lambda>lp. start_call (snd lp) b) (matches kvs ls)) = Some rest" and
      ids: "ids = i # rest"
      by (auto simp: matches_Cons split: start_response.splits)
    from Cons.IH [OF others rest] hit i ids Some printed show ?thesis
      by (simp add: matches_Cons trigger_pipeline_def)
  qed
qed

lemma trigger_labels_raises:
  "trigger_labels w (JObj kvs) b ls acc calls = (Inl e, calls') \<Longrightarrow>
   e = CodePipelineError \<or> e = UnicodeEncodeError"
proof (induction ls arbitrary: acc calls)
  case Nil
  then show ?case by simp
next
  case (Cons l ls)
  then show ?case
    by (auto simp: trigger_pipeline_def Let_def
        split: if_splits start_response.splits sum.splits prod.splits)
qed

lemma trigger_labels_no_match:
  "\<forall>l \<in> set ls. map_of kvs l = None \<Longrightarrow>
   trigger_labels w (JObj kvs) b ls acc calls = (Inr acc, calls)"
  by (induction ls) simp_all

lemma trigger_labels_unmatched:
  "\<forall>t \<in> set ts. pipeline_for mapping t = None \<Longrightarrow>
   trigger_labels w (JObj mapping) b ts acc calls = (Inr acc, calls)"
  by (induction ts) (auto simp: pipeline_for_def split: option.splits if_splits)

lemma count_calls:
  "length (filter (\<lambda>c. call_name c = p) (map (\<lambda>lp. start_call (snd lp) b) ms)) =
   length (filter (\<lambda>lp. snd lp = p) ms)"
  by (induction ms) (simp_all add: start_call_def)

lemma count_matches:
  "length (filter (\<lambda>lp. snd lp = p) (matches mapping titles)) =
   length (filter (\<lambda>t. pipeline_for mapping t = Some p) titles)"
  by (induction titles) (auto simp: matches_Nil matches_Cons split: option.splits)

lemma count_entries:
  "length ids = length ms \<Longrightarrow>
   length (filter (\<lambda>e. py_get e ''pipeline'' JNull = Inr p)
     (map (\<lambda>(lp, i). triggered_entry (fst lp) (snd lp) i) (zip ms ids))) =
   length (filter (\<lambda>lp. snd lp = p) ms)"
  by (induction ids ms rule: list_induct2) (simp_all add: triggered_entry_def)

lemma py_get_Inl: "py_get j k d = Inl e \<Longrightarrow> e = AttributeError"
  by (cases j) simp_all

lemma label_title_Inl:
  "label_title w l = Inl e \<Longrightarrow> e = KeyError \<or> e = AttributeError \<or> e = TypeError"
  by (cases l) (auto split: option.splits json.splits)

lemma titles_of_Inl:
  "titles_of w ls = Inl e \<Longrightarrow> e = KeyError \<or> e = AttributeError \<or> e = TypeError"
  by (induction ls) (auto dest!: label_title_Inl split: sum.splits)

section \<open>Payloads of the webhook shape\<close>

text \<open>On a payload of the webhook shape, lines 75-79 read the lowercased titles of its
  labels and its source branch.\<close>

lemma titles_of_shaped:
  "list_all label_shaped ls \<Longrightarrow>
   titles_of w ls = Inr (map (lower w) (List.map_filter title_of ls))"
proof (induction ls)
  case Nil
  then show ?case by simp
next
  case (Cons l ls)
  from Cons.prems obtain s where s: "title_of l = Some s"
    by (auto simp: label_shaped_def)
  then obtain kvs where l: "l = JObj kvs" "map_of kvs ''title'' = Some (JStr s)"
    by (auto simp: title_of_def split: json.splits option.splits)
  from s l have s': "title_of (JObj kvs) = Some s"
    by simp
  from Cons show ?case
    by (simp add: l s')
qed

lemma shaped_titles:
  "webhook_shaped payload \<Longrightarrow> payload_label_titles w payload = Inr (label_titles w payload)"
  by (auto simp: webhook_shaped_def field_shaped_def labels_shaped_def payload_label_titles_def
      label_titles_def labels_of_def titles_of_shaped
      split: json.splits option.splits)

lemma shaped_titles_length:
  "webhook_shaped payload \<Longrightarrow> length (label_titles w payload) = length (labels_of payload)"
proof -
  have "list_all label_shaped ls \<Longrightarrow> length (List.map_filter title_of ls) = length ls" for ls
    by (induction ls) (auto simp: map_filter_simps label_shaped_def)
  then show "webhook_shaped payload \<Longrightarrow> ?thesis"
    by (auto simp: webhook_shaped_def field_shaped_def labels_shaped_def label_titles_def
        labels_of_def split: json.splits option.splits)
qed

lemma shaped_branch:
  "webhook_shaped payload \<Longrightarrow> payload_source_branch payload = Inr (source_branch payload)"
  by (auto simp: webhook_shaped_def field_shaped_def is_object_def payload_source_branch_def
      source_branch_def split: json.splits option.splits)

lemma shaped_project: "webhook_shaped payload \<Longrightarrow> \<exists>p. payload_project payload = Inr p"
  by (auto simp: webhook_shaped_def field_shaped_def is_object_def payload_project_def
      split: json.splits option.splits)

lemma shaped_reaches:
  "authenticated w ev payload \<Longrightarrow> is_merge_request payload \<Longrightarrow> webhook_shaped payload \<Longrightarrow>
   log_written w payload \<Longrightarrow>
   reaches_line_84 w ev payload (label_titles w payload) (source_branch payload)"
  by (simp add: reaches_line_84_def shaped_titles shaped_branch log_written_def
      labels_line_def branch_line_def)

lemma reaches_shaped:
  "reaches_line_84 w ev payload ls b \<Longrightarrow> webhook_shaped payload \<Longrightarrow>
   authenticated w ev payload \<and> is_merge_request payload \<and> log_written w payload"
  by (simp add: reaches_line_84_def shaped_titles shaped_branch log_written_def
      labels_line_def branch_line_def)

text \<open>The whole invocation when dispatch is reached and the backend answers.\<close>

lemma handler_triggered:
  assumes "authenticated w ev payload"
    and "is_merge_request payload"
    and "webhook_shaped payload"
    and "log_written w payload"
    and "json_loads w (label_pipeline_mapping_str w) = Inr (JObj mapping)"
    and "triggers_logged w payload mapping"
    and "backend_ids w []
           (map (\<lambda>lp. start_call (snd lp) (source_branch payload))
              (matches mapping (label_titles w payload))) = Some ids"
  shows "lambda_handler w ev =
     (Inr \<lparr>statusCode = 200,
           body = (if matches mapping (label_titles w payload) = []
                   then message_body w ''No matching label for pipeline, skipped''
                   else json_dumps w (JObj [(''triggered_pipelines'',
                          JList (map (\<lambda>(lp, i). triggered_entry (fst lp) (snd lp) i)
                                  (zip (matches mapping (label_titles w payload)) ids)))])),
           headers = Some content_type\<rparr>,
      map (\<lambda>lp. start_call (snd lp) (source_branch payload))
        (matches mapping (label_titles w payload)))"
proof -
  let ?ms = "matches mapping (label_titles w payload)"
  from backend_ids_length [OF assms(7)] have "length ids = length ?ms"
    by simp
  then have empty: "zip ?ms ids = [] \<longleftrightarrow> ?ms = []"
    by (cases ids; cases ?ms) simp_all
  from assms(6)
  have "list_all (\<lambda>lp. \<not> print_raises w (triggered_line w (snd lp) (source_branch payload))) ?ms"
    by (simp add: triggers_logged_def triggered_line_def)
  from trigger_labels_ids [OF this assms(7), of "[]"]
    handler_dispatch [OF shaped_reaches [OF assms(1-4)] assms(5)] empty
  show ?thesis by simp
qed

lemma handler_unmatched:
  assumes "authenticated w ev payload"
    and "is_merge_request payload"
    and "webhook_shaped payload"
    and "log_written w payload"
    and "json_loads w (label_pipeline_mapping_str w) = Inr (JObj mapping)"
    and "\<forall>t \<in> set (label_titles w payload). pipeline_for mapping t = None"
  shows "lambda_handler w ev =
     (Inr \<lparr>statusCode = 200,
           body = json_dumps w (JObj [(''message'', JStr ''No matching label for pipeline, skipped'')]),
           headers = Some [(''Content-Type'', ''application/json'')]\<rparr>, [])"
  using handler_dispatch [OF shaped_reaches [OF assms(1-4)] assms(5)]
    trigger_labels_unmatched [OF assms(6)]
  by (simp add: message_body_def content_type_def)

lemma trigger_labels_never_decode_error:
  "trigger_labels w mp b ls acc calls = (Inl e, calls') \<Longrightarrow> e \<noteq> JSONDecodeError"
proof (induction ls arbitrary: acc calls)
  case Nil
  then show ?case by simp
next
  case (Cons l ls)
  then show ?case
    by (cases mp)
       (auto simp: trigger_pipeline_def Let_def
          split: if_splits start_response.splits sum.splits prod.splits)
qed

text \<open>The two parser errors are caught, and nothing else raises one.\<close>

lemma handler_never_decode_error:
  assumes raised: "fst (lambda_handler w ev) = Inl e"
  shows "e \<noteq> JSONDecodeError"
proof (cases rule: handler_stages [of w ev])
  case parse_error
  from handler_parse_error [OF this] raised show ?thesis by simp
next
  case (parse_raises e')
  from handler_parse_raises [OF this] raised parse_raises show ?thesis by simp
next
  case (auth_raises payload e')
  then have "e' \<noteq> JSONDecodeError"
    by (cases payload)
       (auto simp: verify_gitlab_signature_def payload_project_def get_project_token_def Let_def
          dest!: py_get_Inl split: if_splits sum.splits secret_response.splits option.splits)
  with handler_auth_raises [OF auth_raises] raised show ?thesis by simp
next
  case (forbidden payload m)
  from handler_forbidden [OF this] raised show ?thesis by simp
next
  case (other_kind payload)
  from handler_not_merge_request [OF this] raised show ?thesis by simp
next
  case (titles_raise payload e')
  from titles_raise(3) have "e' \<noteq> JSONDecodeError"
    by (auto simp: payload_label_titles_def dest!: py_get_Inl titles_of_Inl
        split: sum.splits json.splits if_splits)
  with handler_titles_raise [OF titles_raise] raised show ?thesis by simp
next
  case (titles_print payload ls)
  from handler_titles_print [OF this] raised show ?thesis by simp
next
  case (branch_raises payload ls e')
  from branch_raises(5) have "e' \<noteq> JSONDecodeError"
    by (auto simp: payload_source_branch_def dest!: py_get_Inl split: sum.splits)
  with handler_branch_raises [OF branch_raises] raised show ?thesis by simp
next
  case (branch_print payload ls b)
  from handler_branch_print [OF this] raised show ?thesis by simp
next
  case (reached payload ls b)
  show ?thesis
  proof (cases "json_loads w (label_pipeline_mapping_str w)")
    case (Inl e')
    show ?thesis
    proof (cases "e' = JSONDecodeError")
      case True
      with handler_bad_mapping [OF reached] Inl raised show ?thesis by simp
    next
      case False
      from handler_mapping_raises [OF reached Inl False] raised False show ?thesis by simp
    qed
  next
    case (Inr mp)
    obtain res calls where t: "trigger_labels w mp b ls [] [] = (res, calls)"
      by (cases "trigger_labels w mp b ls [] []")
    with handler_dispatch [OF reached Inr] raised have "res = Inl e"
      by (cases res) (simp_all split: if_splits)
    with t trigger_labels_never_decode_error show ?thesis by blast
  qed
qed

text \<open>Where an exception that leaves the handler on a payload of the webhook shape comes
  from.\<close>

lemma handler_raises_shaped:
  assumes raised: "fst (lambda_handler w ev) = Inl e"
    and shaped: "\<forall>payload. json_loads w (request_body ev) = Inr payload \<longrightarrow> webhook_shaped payload"
    and config: "\<forall>m. json_loads w (label_pipeline_mapping_str w) = Inr m \<longrightarrow> is_object m"
  shows "e = SecretsManagerError \<or> e = CodePipelineError \<or> e = UnicodeEncodeError \<or>
         json_loads w (request_body ev) = Inl e \<or>
         json_loads w (label_pipeline_mapping_str w) = Inl e"
proof (cases rule: handler_stages [of w ev])
  case parse_error
  from handler_parse_error [OF this] raised show ?thesis by simp
next
  case (parse_raises e')
  from handler_parse_raises [OF this] raised parse_raises show ?thesis by simp
next
  case (auth_raises payload e')
  from shaped auth_raises(1) have "webhook_shaped payload" by blast
  from shaped_project [OF this] verify_raises auth_raises(2)
  have "e' = SecretsManagerError \<or> e' = UnicodeEncodeError" by blast
  with handler_auth_raises [OF auth_raises] raised show ?thesis by auto
next
  case (forbidden payload m)
  from handler_forbidden [OF this] raised show ?thesis by simp
next
  case (other_kind payload)
  from handler_not_merge_request [OF this] raised show ?thesis by simp
next
  case (titles_raise payload e')
  from shaped titles_raise(1) have "webhook_shaped payload"
    by (simp add: authenticated_def)
  from shaped_titles [OF this, of w] titles_raise(3) show ?thesis by simp
next
  case (titles_print payload ls)
  from handler_titles_print [OF this] raised show ?thesis by simp
next
  case (branch_raises payload ls e')
  from shaped branch_raises(1) have "webhook_shaped payload"
    by (simp add: authenticated_def)
  from shaped_branch [OF this] branch_raises(5) show ?thesis by simp
next
  case (branch_print payload ls b)
  from handler_branch_print [OF this] raised show ?thesis by simp
next
  case (reached payload ls b)
  show ?thesis
  proof (cases "json_loads w (label_pipeline_mapping_str w)")
    case (Inl e')
    show ?thesis
    proof (cases "e' = JSONDecodeError")
      case True
      with handler_bad_mapping [OF reached] Inl raised show ?thesis by simp
    next
      case False
      from handler_mapping_raises [OF reached Inl False] raised Inl show ?thesis by simp
    qed
  next
    case (Inr mp)
    with config obtain kvs where mp: "mp = JObj kvs"
      by (cases mp) (auto simp: is_object_def)
    obtain res calls where t: "trigger_labels w (JObj kvs) b ls [] [] = (res, calls)"
      by (cases "trigger_labels w (JObj kvs) b ls [] []")
    with handler_dispatch [OF reached Inr] raised mp have "res = Inl e"
      by (cases res) (simp_all split: if_splits)
    with t trigger_labels_raises show ?thesis by blast
  qed
qed

section \<open>The test double at work\<close>

lemmas example_bodies =
  body_q1_def body_four_def body_docs_def body_note_def body_plain_second_def
  body_numeric_title_def body_null_attributes_def body_null_labels_def body_null_project_def
  body_plain_labels_def mapping_text_def

lemma ascii_lower: "is_ascii s \<Longrightarrow> lower w s = map lower_char s"
  by (simp add: lower_def)

lemma ascii_printed: "is_ascii t \<Longrightarrow> \<not> print_raises w t"
  by (simp add: print_raises_def)

lemma example_fields:
  "json_loads example_world = example_loads"
  "json_loads broken_config_world = example_loads"
  "json_loads unset_config_world = example_loads"
  "py_str example_world = example_dumps"
  "py_str broken_config_world = example_dumps"
  "py_str unset_config_world = example_dumps"
  "get_secret_value example_world ''gitlab/g/p/token'' = SecretString ''secret123''"
  "get_secret_value broken_config_world ''gitlab/g/p/token'' = SecretString ''secret123''"
  "get_secret_value unset_config_world ''gitlab/g/p/token'' = SecretString ''secret123''"
  "get_secret_value empty_path_world ''gitlab//token'' = SecretString ''secret123''"
  "environ example_world ''LABEL_PIPELINE_MAPPING'' = Some mapping_text"
  "environ broken_config_world ''LABEL_PIPELINE_MAPPING'' = Some ''{q1: PipelineQ1''"
  "environ unset_config_world ''LABEL_PIPELINE_MAPPING'' = None"
  "start_pipeline_execution example_world =
     (\<lambda>done c. PipelineExecutionId (''exec-'' @ replicate (Suc (length done)) CHR ''I''))"
  by (simp_all add: example_world_def broken_config_world_def unset_config_world_def
      empty_path_world_def get_secret_value_def is_ascii_def)

lemma example_loads_simps:
  "example_loads ''{}'' = Inr (JObj [])"
  "example_loads body_q1 = Inr payload_q1"
  "example_loads body_four = Inr payload_four"
  "example_loads body_docs = Inr payload_docs"
  "example_loads body_note = Inr payload_note"
  "example_loads body_plain_second = Inr payload_plain_second"
  "example_loads body_numeric_title = Inr payload_numeric_title"
  "example_loads body_null_attributes = Inr payload_null_attributes"
  "example_loads body_null_labels = Inr payload_null_labels"
  "example_loads body_null_project = Inr payload_null_project"
  "example_loads body_plain_labels = Inr payload_plain_labels"
  "example_loads mapping_text = Inr (JObj mapping_q)"
  "example_loads ''{q1: PipelineQ1'' = Inl JSONDecodeError"
  by (simp_all add: example_loads_def example_documents_def example_bodies)

lemmas example_defs =
  example_fields example_loads_simps request_def request_body_def request_headers_def

lemma example_token: "supplied_token w [(''X-Gitlab-Token'', t)] = t"
  by (simp add: supplied_token_def ci_equal_def lower_def is_ascii_def lower_char_def)

lemma example_verify:
  assumes "get_secret_value w ''gitlab/g/p/token'' = SecretString ''secret123''"
    and "map_of kvs ''project'' = Some (JObj [(''path_with_namespace'', JStr ''g/p'')])"
  shows "verify_gitlab_signature w (JObj kvs) [(''X-Gitlab-Token'', ''secret123'')]
           = Inr (True, None)"
  using assms lookup_printed [OF assms(1)]
  by (simp add: verify_gitlab_signature_def payload_project_def get_project_token_def
      secret_name_def format_value_def header_token_supplied example_token)

lemmas example_steps =
  authenticated_def is_merge_request_def payload_label_titles_def payload_source_branch_def
  example_defs example_verify lower_def lower_char_def is_ascii_def
  webhook_shaped_def field_shaped_def is_object_def labels_shaped_def label_shaped_def
  title_of_def label_titles_def labels_of_def source_branch_def map_filter_simps

lemmas example_prints =
  log_written_def print_raises_def is_ascii_def format_value_def example_fields
  label_titles_def labels_of_def title_of_def source_branch_def map_filter_simps
  lower_def lower_char_def labels_line_def branch_line_def

lemma example_mapping:
  "json_loads example_world (label_pipeline_mapping_str example_world) = Inr (JObj mapping_q)"
  by (simp add: label_pipeline_mapping_str_def example_defs)

lemma broken_mapping:
  "json_loads broken_config_world (label_pipeline_mapping_str broken_config_world)
     = Inl JSONDecodeError"
  by (simp add: label_pipeline_mapping_str_def example_defs)

lemma unset_empty: "json_loads unset_config_world ''{}'' = Inr (JObj [])"
  by (simp add: example_defs)

lemma example_note:
  "authenticated example_world (request body_note ''secret123'') payload_note"
  "py_get payload_note ''object_kind'' JNull \<noteq> Inr (JStr ''merge_request'')"
  by (simp_all add: example_steps payload_note_def)

lemma example_four:
  "authenticated example_world (request body_four ''secret123'') payload_four"
  "is_merge_request payload_four"
  "webhook_shaped payload_four"
  by (simp_all add: example_steps payload_four_def)

lemma example_four_values:
  "label_titles example_world payload_four = [''q1'', ''docs'', ''q2'', ''q1'']"
  "source_branch payload_four = JStr ''feature-x''"
  by (simp_all add: example_steps payload_four_def)

lemma example_four_log: "log_written example_world payload_four"
  by (simp add: example_prints payload_four_def)

lemma example_docs:
  "authenticated example_world (request body_docs ''secret123'') payload_docs"
  "is_merge_request payload_docs"
  "webhook_shaped payload_docs"
  by (simp_all add: example_steps payload_docs_def)

lemma example_docs_values:
  "label_titles example_world payload_docs = [''docs'']"
  "source_branch payload_docs = JNull"
  by (simp_all add: example_steps payload_docs_def)

lemma example_docs_log: "log_written example_world payload_docs"
  by (simp add: example_prints payload_docs_def)

lemma example_q1_broken:
  "authenticated broken_config_world (request body_q1 ''secret123'') payload_q1"
  "is_merge_request payload_q1"
  "webhook_shaped payload_q1"
  by (simp_all add: example_steps payload_q1_def)

lemma example_q1_broken_log: "log_written broken_config_world payload_q1"
  by (simp add: example_prints payload_q1_def)

lemma example_q1_unset:
  "authenticated unset_config_world (request body_q1 ''secret123'') payload_q1"
  by (simp add: example_steps payload_q1_def)

lemma example_q1_unset_log: "log_written unset_config_world payload_q1"
  by (simp add: example_prints payload_q1_def)

lemma example_plain_second:
  "authenticated example_world (request body_plain_second ''secret123'') payload_plain_second"
  "is_merge_request payload_plain_second"
  "payload_label_titles example_world payload_plain_second = Inl TypeError"
  by (simp_all add: example_steps payload_plain_second_def)

lemma example_numeric_title:
  "authenticated example_world (request body_numeric_title ''secret123'') payload_numeric_title"
  "is_merge_request payload_numeric_title"
  "payload_label_titles example_world payload_numeric_title = Inl AttributeError"
  by (simp_all add: example_steps payload_numeric_title_def)

lemma example_null_attributes:
  "authenticated example_world (request body_null_attributes ''secret123'') payload_null_attributes"
  "is_merge_request payload_null_attributes"
  "payload_label_titles example_world payload_null_attributes = Inr []"
  "\<not> print_raises example_world (labels_line example_world [])"
  "payload_source_branch payload_null_attributes = Inl AttributeError"
  by (simp_all add: example_steps payload_null_attributes_def example_prints)

lemma example_null_labels:
  "authenticated broken_config_world (request body_null_labels ''secret123'') payload_null_labels"
  "is_merge_request payload_null_labels"
  "payload_label_titles broken_config_world payload_null_labels = Inl TypeError"
  by (simp_all add: example_steps payload_null_labels_def)

lemma example_null_project:
  "json_loads example_world (request_body (request body_null_project [])) = Inr payload_null_project"
  "verify_gitlab_signature example_world payload_null_project
     (request_headers (request body_null_project [])) = Inl AttributeError"
  by (simp_all add: example_defs payload_null_project_def
      verify_gitlab_signature_def payload_project_def)

lemma example_plain_labels:
  "authenticated unset_config_world (request body_plain_labels ''secret123'') payload_plain_labels"
  "is_merge_request payload_plain_labels"
  "payload_label_titles unset_config_world payload_plain_labels = Inl TypeError"
  by (simp_all add: example_steps payload_plain_labels_def)

lemma example_matches:
  "matches mapping_q [''q1'', ''docs'', ''q2'', ''q1''] =
     [(''q1'', JStr ''PipelineQ1''), (''q2'', JStr ''PipelineQ1''), (''q1'', JStr ''PipelineQ1'')]"
  by (simp add: matches_Nil matches_Cons pipeline_for_def mapping_q_def)

lemma example_four_triggers: "triggers_logged example_world payload_four mapping_q"
  by (simp add: triggers_logged_def example_four_values example_matches print_raises_def
      is_ascii_def format_value_def)

section \<open>The claims\<close>

subsection \<open>C1\<close>

text \<open>
  C1. A request whose supplied token differs from the secret registered for the payload's
  project is answered with status 403, the body carries the reason, and no pipeline is
  triggered. The reason is the one of whichever check of lines 29-37 fails first.
\<close>

theorem token_mismatch_forbidden:
  assumes "json_loads w (request_body ev) = Inr payload"
    and "path_with_namespace payload = Some project"
    and "get_secret_value w (''gitlab/'' @ format_value w project @ ''/token'') = SecretString secret"
    and "supplied_token w (request_headers ev) \<noteq> secret"
  shows "lambda_handler w ev =
     (Inr \<lparr>statusCode = 403,
           body = json_dumps w (JObj [(''error'', JStr
             (if \<not> truthy project then ''No project info in payload''
              else if secret = [] then ''No token registered for project '' @ format_value w project
              else ''Invalid secret token''))]),
           headers = None\<rparr>, [])"
proof -
  have "verify_gitlab_signature w payload (request_headers ev) =
      Inr (False, Some
        (if \<not> truthy project then ''No project info in payload''
         else if secret = [] then ''No token registered for project '' @ format_value w project
         else ''Invalid secret token''))"
    using assms(3,4) path_payload_project [OF assms(2)] lookup_printed [OF assms(3)]
    by (simp add: verify_gitlab_signature_def get_project_token_def secret_name_def
        header_token_supplied)
  from handler_forbidden [OF assms(1) this] show ?thesis
    by (simp add: error_body_def)
qed

theorem token_mismatch_forbidden_witness:
  "json_loads example_world (request_body (request body_q1 ''wrong'')) = Inr payload_q1 \<and>
   path_with_namespace payload_q1 = Some (JStr ''g/p'') \<and>
   get_secret_value example_world (''gitlab/'' @ format_value example_world (JStr ''g/p'') @ ''/token'')
     = SecretString ''secret123'' \<and>
   supplied_token example_world (request_headers (request body_q1 ''wrong'')) \<noteq> ''secret123'' \<and>
   lambda_handler example_world (request body_q1 ''wrong'') =
     (Inr \<lparr>statusCode = 403,
           body = json_dumps example_world (JObj [(''error'', JStr ''Invalid secret token'')]),
           headers = None\<rparr>, [])"
proof -
  have h1: "json_loads example_world (request_body (request body_q1 ''wrong'')) = Inr payload_q1"
    by (simp add: example_defs)
  have h2: "path_with_namespace payload_q1 = Some (JStr ''g/p'')"
    by (simp add: path_with_namespace_def payload_q1_def)
  have h3: "get_secret_value example_world
      (''gitlab/'' @ format_value example_world (JStr ''g/p'') @ ''/token'') = SecretString ''secret123''"
    by (simp add: example_fields format_value_def)
  have h4: "supplied_token example_world (request_headers (request body_q1 ''wrong'')) \<noteq> ''secret123''"
    by (simp add: example_token request_def request_headers_def)
  from token_mismatch_forbidden [OF h1 h2 h3 h4] h1 h2 h3 h4 show ?thesis
    by simp
qed

subsection \<open>C2\<close>

text \<open>
  C2 as stated fails. The payload \<^verbatim>\<open>{"project": {"path_with_namespace": ""}}\<close> has a project
  path, a secret is registered under the name that path gives, and the request carries
  that secret: by the claim authentication succeeds, while line 29 treats the empty path
  as no project and authentication fails.
\<close>

theorem authenticate_spec_counterexample:
  "verify_gitlab_signature empty_path_world payload_empty_path [(''X-Gitlab-Token'', ''secret123'')]
     = Inr (False, Some ''No project info in payload'') \<and>
   authenticate_spec empty_path_world payload_empty_path [(''X-Gitlab-Token'', ''secret123'')]
     = Inr (True, None)"
  by (simp add: verify_gitlab_signature_def payload_project_def authenticate_spec_def
      path_with_namespace_def payload_empty_path_def format_value_def example_fields
      example_token)

text \<open>
  C2, amended. On a payload that is an object whose \<open>project\<close> is absent or an object,
  authentication is exactly this: the token is the value of the last header whose name
  equals \<^verbatim>\<open>x-gitlab-token\<close> up to case, empty when there is none; a project path that is
  absent or falsy fails with \<^verbatim>\<open>No project info in payload\<close>; the name
  \<^verbatim>\<open>gitlab/{project}/token\<close> is then written to the log, and a name that standard output
  cannot encode ends authentication with that error; no secret under the name, or an
  empty one, fails with \<^verbatim>\<open>No token registered for project {project}\<close>; otherwise
  authentication succeeds if and only if the token equals the secret, and fails with
  \<^verbatim>\<open>Invalid secret token\<close> if not. A failure of the secret store propagates.
\<close>

theorem verify_refines_amended:
  assumes "field_shaped is_object kvs ''project''"
  shows "verify_gitlab_signature w (JObj kvs) hs = authenticate_amended w (JObj kvs) hs"
proof (cases "map_of kvs ''project''")
  case None
  then show ?thesis
    by (simp add: verify_gitlab_signature_def payload_project_def authenticate_amended_def
        path_with_namespace_def)
next
  case (Some pr)
  with assms obtain pkvs where pr: "pr = JObj pkvs"
    by (cases pr) (simp_all add: field_shaped_def is_object_def)
  show ?thesis
  proof (cases "map_of pkvs ''path_with_namespace''")
    case None
    with Some pr show ?thesis
      by (simp add: verify_gitlab_signature_def payload_project_def authenticate_amended_def
          path_with_namespace_def)
  next
    case (Some project)
    with \<open>map_of kvs ''project'' = Some pr\<close> pr show ?thesis
      by (simp add: verify_gitlab_signature_def payload_project_def authenticate_amended_def
          path_with_namespace_def get_project_token_def secret_name_def header_token_supplied
          split: secret_response.splits)
  qed
qed

theorem verify_refines_amended_witness:
  "field_shaped is_object [(''project'', JObj [(''path_with_namespace'', JStr ''g/p'')])] ''project'' \<and>
   verify_gitlab_signature example_world
     (JObj [(''project'', JObj [(''path_with_namespace'', JStr ''g/p'')])])
     [(''X-Gitlab-Token'', ''secret123'')] = Inr (True, None) \<and>
   authenticate_amended example_world
     (JObj [(''project'', JObj [(''path_with_namespace'', JStr ''g/p'')])])
     [(''X-Gitlab-Token'', ''secret123'')] = Inr (True, None)"
proof -
  have h: "field_shaped is_object [(''project'', JObj [(''path_with_namespace'', JStr ''g/p'')])] ''project''"
    by (simp add: field_shaped_def is_object_def)
  have v: "verify_gitlab_signature example_world
     (JObj [(''project'', JObj [(''path_with_namespace'', JStr ''g/p'')])])
     [(''X-Gitlab-Token'', ''secret123'')] = Inr (True, None)"
    by (simp add: example_verify example_fields)
  from verify_refines_amended [OF h, of example_world "[(''X-Gitlab-Token'', ''secret123'')]"] h v
  show ?thesis by simp
qed

subsection \<open>C3\<close>

text \<open>
  C3. An authenticated request whose \<open>object_kind\<close> is not the string
  \<^verbatim>\<open>merge_request\<close>, or is absent, is answered with status 200 and the message
  \<^verbatim>\<open>Not a merge request event\<close>, and no pipeline is triggered, whatever its labels are.
\<close>

theorem not_merge_request_neutral:
  assumes "authenticated w ev payload"
    and "py_get payload ''object_kind'' JNull \<noteq> Inr (JStr ''merge_request'')"
  shows "lambda_handler w ev =
     (Inr \<lparr>statusCode = 200,
           body = json_dumps w (JObj [(''message'', JStr ''Not a merge request event'')]),
           headers = None\<rparr>, [])"
proof -
  from assms(2) have "\<not> is_merge_request payload"
    by (simp add: is_merge_request_def)
  from handler_not_merge_request [OF assms(1) this] show ?thesis
    by (simp add: message_body_def)
qed

theorem not_merge_request_neutral_witness:
  "authenticated example_world (request body_note ''secret123'') payload_note \<and>
   py_get payload_note ''object_kind'' JNull \<noteq> Inr (JStr ''merge_request'') \<and>
   py_get payload_note ''labels'' JNull = Inr (JList [JObj [(''title'', JStr ''Q1'')]]) \<and>
   lambda_handler example_world (request body_note ''secret123'') =
     (Inr \<lparr>statusCode = 200,
           body = json_dumps example_world (JObj [(''message'', JStr ''Not a merge request event'')]),
           headers = None\<rparr>, [])"
proof -
  have labels: "py_get payload_note ''labels'' JNull = Inr (JList [JObj [(''title'', JStr ''Q1'')]])"
    by (simp add: payload_note_def)
  from not_merge_request_neutral [OF example_note] example_note labels show ?thesis
    by simp
qed

subsection \<open>C4\<close>

text \<open>
  C4 as stated fails. In this authenticated merge-request event the first label has the
  title \<^verbatim>\<open>Q1\<close>, whose lowercase the mapping sends to \<^verbatim>\<open>PipelineQ1\<close>, but the second
  label is a plain string: line 76 raises before any label is processed, and no pipeline
  is triggered.
\<close>

theorem matching_labels_counterexample:
  "authenticated example_world (request body_plain_second ''secret123'') payload_plain_second \<and>
   is_merge_request payload_plain_second \<and>
   labels_of payload_plain_second = [JObj [(''title'', JStr ''Q1'')], JStr ''Q2''] \<and>
   title_of (JObj [(''title'', JStr ''Q1'')]) = Some ''Q1'' \<and>
   lower example_world ''Q1'' = ''q1'' \<and>
   json_loads example_world (label_pipeline_mapping_str example_world) = Inr (JObj mapping_q) \<and>
   map_of mapping_q ''q1'' = Some (JStr ''PipelineQ1'') \<and>
   lambda_handler example_world (request body_plain_second ''secret123'') = (Inl TypeError, [])"
  using handler_titles_raise [OF example_plain_second] example_plain_second(1,2) example_mapping
  by (simp add: payload_plain_second_def mapping_q_def labels_of_def title_of_def
      lower_def is_ascii_def lower_char_def)

text \<open>
  C4, amended. For an authenticated merge-request event of the webhook shape (labels a
  list of objects with string titles, \<open>object_attributes\<close> absent or an object) whose log
  lines are written, with an object as configured mapping and a backend that answers
  every call with an execution id: the trigger calls are, in payload order, one call for
  each label whose lowercased title L the mapping sends to a pipeline name P, with name P
  and the variables \<^verbatim>\<open>[{name: SOURCE_BRANCH, value: object_attributes.source_branch}]\<close>;
  labels without a pipeline are skipped; and when there is a match the response is the
  200 whose \<open>triggered_pipelines\<close> lists, in the same order, label L, pipeline P and the
  execution id the backend gave to that call.
\<close>

theorem matching_labels_trigger:
  assumes "authenticated w ev payload"
    and "is_merge_request payload"
    and "webhook_shaped payload"
    and "log_written w payload"
    and "json_loads w (label_pipeline_mapping_str w) = Inr (JObj mapping)"
    and "triggers_logged w payload mapping"
    and "backend_ids w []
           (map (\<lambda>lp. StartPipelineExecution (snd lp)
                   (JList [JObj [(''name'', JStr ''SOURCE_BRANCH''),
                                 (''value'', source_branch payload)]]))
              (matches mapping (label_titles w payload))) = Some ids"
  shows "snd (lambda_handler w ev) =
           map (\<lambda>lp. StartPipelineExecution (snd lp)
                  (JList [JObj [(''name'', JStr ''SOURCE_BRANCH''),
                                (''value'', source_branch payload)]]))
             (matches mapping (label_titles w payload)) \<and>
         (matches mapping (label_titles w payload) \<noteq> [] \<longrightarrow>
          fst (lambda_handler w ev) =
            Inr \<lparr>statusCode = 200,
                 body = json_dumps w (JObj [(''triggered_pipelines'',
                   JList (map (\<lambda>(lp, i). JObj [(''label'', JStr (fst lp)), (''pipeline'', snd lp),
                                                (''execution_id'', JStr i)])
                           (zip (matches mapping (label_titles w payload)) ids)))]),
                 headers = Some [(''Content-Type'', ''application/json'')]\<rparr>)"
proof -
  from assms(7)
  have "backend_ids w [] (map (\<lambda>lp. start_call (snd lp) (source_branch payload))
          (matches mapping (label_titles w payload))) = Some ids"
    by (simp add: start_call_def)
  from handler_triggered [OF assms(1-6) this] show ?thesis
    by (simp add: start_call_def triggered_entry_def [abs_def] content_type_def)
qed

theorem matching_labels_trigger_witness:
  "authenticated example_world (request body_four ''secret123'') payload_four \<and>
   is_merge_request payload_four \<and>
   webhook_shaped payload_four \<and>
   log_written example_world payload_four \<and>
   json_loads example_world (label_pipeline_mapping_str example_world) = Inr (JObj mapping_q) \<and>
   triggers_logged example_world payload_four mapping_q \<and>
   label_titles example_world payload_four = [''q1'', ''docs'', ''q2'', ''q1''] \<and>
   source_branch payload_four = JStr ''feature-x'' \<and>
   matches mapping_q [''q1'', ''docs'', ''q2'', ''q1''] =
     [(''q1'', JStr ''PipelineQ1''), (''q2'', JStr ''PipelineQ1''), (''q1'', JStr ''PipelineQ1'')] \<and>
   lambda_handler example_world (request body_four ''secret123'') =
     (Inr \<lparr>statusCode = 200,
           body = json_dumps example_world (JObj [(''triggered_pipelines'', JList
             [JObj [(''label'', JStr ''q1''), (''pipeline'', JStr ''PipelineQ1''),
                    (''execution_id'', JStr ''exec-I'')],
              JObj [(''label'', JStr ''q2''), (''pipeline'', JStr ''PipelineQ1''),
                    (''execution_id'', JStr ''exec-II'')],
              JObj [(''label'', JStr ''q1''), (''pipeline'', JStr ''PipelineQ1''),
                    (''execution_id'', JStr ''exec-III'')]])]),
           headers = Some [(''Content-Type'', ''application/json'')]\<rparr>,
      [StartPipelineExecution (JStr ''PipelineQ1'')
         (JList [JObj [(''name'', JStr ''SOURCE_BRANCH''), (''value'', JStr ''feature-x'')]]),
       StartPipelineExecution (JStr ''PipelineQ1'')
         (JList [JObj [(''name'', JStr ''SOURCE_BRANCH''), (''value'', JStr ''feature-x'')]]),
       StartPipelineExecution (JStr ''PipelineQ1'')
         (JList [JObj [(''name'', JStr ''SOURCE_BRANCH''), (''value'', JStr ''feature-x'')]])])"
proof -
  have ids: "backend_ids example_world []
      (map (\<lambda>lp. StartPipelineExecution (snd lp)
              (JList [JObj [(''name'', JStr ''SOURCE_BRANCH''),
                            (''value'', source_branch payload_four)]]))
         (matches mapping_q (label_titles example_world payload_four)))
      = Some [''exec-I'', ''exec-II'', ''exec-III'']"
    by (simp add: example_four_values example_matches example_fields)
  from matching_labels_trigger
    [OF example_four example_four_log example_mapping example_four_triggers ids]
  have "lambda_handler example_world (request body_four ''secret123'') =
     (Inr \<lparr>statusCode = 200,
           body = json_dumps example_world (JObj [(''triggered_pipelines'', JList
             [JObj [(''label'', JStr ''q1''), (''pipeline'', JStr ''PipelineQ1''),
                    (''execution_id'', JStr ''exec-I'')],
              JObj [(''label'', JStr ''q2''), (''pipeline'', JStr ''PipelineQ1''),
                    (''execution_id'', JStr ''exec-II'')],
              JObj [(''label'', JStr ''q1''), (''pipeline'', JStr ''PipelineQ1''),
                    (''execution_id'', JStr ''exec-III'')]])]),
           headers = Some [(''Content-Type'', ''application/json'')]\<rparr>,
      [StartPipelineExecution (JStr ''PipelineQ1'')
         (JList [JObj [(''name'', JStr ''SOURCE_BRANCH''), (''value'', JStr ''feature-x'')]]),
       StartPipelineExecution (JStr ''PipelineQ1'')
         (JList [JObj [(''name'', JStr ''SOURCE_BRANCH''), (''value'', JStr ''feature-x'')]]),
       StartPipelineExecution (JStr ''PipelineQ1'')
         (JList [JObj [(''name'', JStr ''SOURCE_BRANCH''), (''value'', JStr ''feature-x'')]])])"
    by (simp add: example_four_values example_matches prod_eq_iff)
  with example_four example_four_log example_mapping example_four_triggers example_four_values
    example_matches
  show ?thesis by simp
qed

subsection \<open>C5\<close>

text \<open>
  C5 as stated fails. This authenticated merge-request event has one matching label
  occurrence, \<^verbatim>\<open>Q1\<close>, and a second label whose title is a number: line 76 raises, and the
  invocation makes no trigger call for the matching label.
\<close>

theorem one_trigger_counterexample:
  "authenticated example_world (request body_numeric_title ''secret123'') payload_numeric_title \<and>
   is_merge_request payload_numeric_title \<and>
   labels_of payload_numeric_title = [JObj [(''title'', JStr ''Q1'')], JObj [(''title'', JInt 2)]] \<and>
   title_of (JObj [(''title'', JStr ''Q1'')]) = Some ''Q1'' \<and>
   lower example_world ''Q1'' = ''q1'' \<and>
   json_loads example_world (label_pipeline_mapping_str example_world) = Inr (JObj mapping_q) \<and>
   pipeline_for mapping_q ''q1'' = Some (JStr ''PipelineQ1'') \<and>
   lambda_handler example_world (request body_numeric_title ''secret123'') = (Inl AttributeError, [])"
  using handler_titles_raise [OF example_numeric_title] example_numeric_title(1,2) example_mapping
  by (simp add: payload_numeric_title_def mapping_q_def pipeline_for_def labels_of_def
      title_of_def lower_def is_ascii_def lower_char_def)

text \<open>
  C5, amended. In an invocation that handles an authenticated merge-request event of the
  webhook shape whose log lines are written, with an object as configured mapping and a
  backend that answers every call: for every pipeline name, the number of trigger calls
  with that name is the number of label occurrences of the payload whose lowercased title
  the mapping sends to it, and so is the number of result entries for it. Nothing is
  deduplicated.
\<close>

theorem one_trigger_per_matching_label:
  assumes "authenticated w ev payload"
    and "is_merge_request payload"
    and "webhook_shaped payload"
    and "log_written w payload"
    and "json_loads w (label_pipeline_mapping_str w) = Inr (JObj mapping)"
    and "triggers_logged w payload mapping"
    and "backend_ids w []
           (map (\<lambda>lp. StartPipelineExecution (snd lp)
                   (JList [JObj [(''name'', JStr ''SOURCE_BRANCH''),
                                 (''value'', source_branch payload)]]))
              (matches mapping (label_titles w payload))) = Some ids"
  shows "length (label_titles w payload) = length (labels_of payload) \<and>
    (\<exists>entries.
     fst (lambda_handler w ev) =
       Inr \<lparr>statusCode = 200,
            body = (if entries = []
                    then json_dumps w (JObj [(''message'', JStr ''No matching label for pipeline, skipped'')])
                    else json_dumps w (JObj [(''triggered_pipelines'', JList entries)])),
            headers = Some [(''Content-Type'', ''application/json'')]\<rparr> \<and>
     (\<forall>p. length (filter (\<lambda>c. call_name c = p) (snd (lambda_handler w ev))) =
            length (filter (\<lambda>t. pipeline_for mapping t = Some p) (label_titles w payload)) \<and>
          length (filter (\<lambda>e. py_get e ''pipeline'' JNull = Inr p) entries) =
            length (filter (\<lambda>t. pipeline_for mapping t = Some p) (label_titles w payload))))"
proof -
  let ?ms = "matches mapping (label_titles w payload)"
  let ?entries = "map (\<lambda>(lp, i). triggered_entry (fst lp) (snd lp) i) (zip ?ms ids)"
  from assms(7)
  have ids: "backend_ids w [] (map (\<lambda>lp. start_call (snd lp) (source_branch payload)) ?ms)
      = Some ids"
    by (simp add: start_call_def)
  from backend_ids_length [OF ids] have len: "length ids = length ?ms"
    by simp
  then have empty: "?entries = [] \<longleftrightarrow> ?ms = []"
    by (cases ids; cases ?ms) simp_all
  have result: "fst (lambda_handler w ev) =
       Inr \<lparr>statusCode = 200,
            body = (if ?entries = []
                    then json_dumps w (JObj [(''message'', JStr ''No matching label for pipeline, skipped'')])
                    else json_dumps w (JObj [(''triggered_pipelines'', JList ?entries)])),
            headers = Some [(''Content-Type'', ''application/json'')]\<rparr>"
    using handler_triggered [OF assms(1-6) ids] empty
    by (simp add: message_body_def content_type_def)
  have calls: "snd (lambda_handler w ev) =
      map (\<lambda>lp. start_call (snd lp) (source_branch payload)) ?ms"
    using handler_triggered [OF assms(1-6) ids] by simp
  have counts: "\<forall>p. length (filter (\<lambda>c. call_name c = p) (snd (lambda_handler w ev))) =
            length (filter (\<lambda>t. pipeline_for mapping t = Some p) (label_titles w payload)) \<and>
          length (filter (\<lambda>e. py_get e ''pipeline'' JNull = Inr p) ?entries) =
            length (filter (\<lambda>t. pipeline_for mapping t = Some p) (label_titles w payload))"
    by (simp only: calls count_calls count_matches count_entries [OF len]) simp
  from result counts shaped_titles_length [OF assms(3)] show ?thesis by blast
qed

theorem one_trigger_per_matching_label_witness:
  "authenticated example_world (request body_four ''secret123'') payload_four \<and>
   is_merge_request payload_four \<and>
   webhook_shaped payload_four \<and>
   log_written example_world payload_four \<and>
   json_loads example_world (label_pipeline_mapping_str example_world) = Inr (JObj mapping_q) \<and>
   triggers_logged example_world payload_four mapping_q \<and>
   label_titles example_world payload_four = [''q1'', ''docs'', ''q2'', ''q1''] \<and>
   pipeline_for mapping_q ''q1'' = Some (JStr ''PipelineQ1'') \<and>
   pipeline_for mapping_q ''docs'' = None \<and>
   pipeline_for mapping_q ''q2'' = Some (JStr ''PipelineQ1'') \<and>
   length (filter (\<lambda>c. call_name c = JStr ''PipelineQ1'')
     (snd (lambda_handler example_world (request body_four ''secret123'')))) = 3"
proof -
  have ids: "backend_ids example_world []
      (map (\<lambda>lp. StartPipelineExecution (snd lp)
              (JList [JObj [(''name'', JStr ''SOURCE_BRANCH''),
                            (''value'', source_branch payload_four)]]))
         (matches mapping_q (label_titles example_world payload_four)))
      = Some [''exec-I'', ''exec-II'', ''exec-III'']"
    by (simp add: example_four_values example_matches example_fields)
  have p: "pipeline_for mapping_q ''q1'' = Some (JStr ''PipelineQ1'')"
    "pipeline_for mapping_q ''docs'' = None"
    "pipeline_for mapping_q ''q2'' = Some (JStr ''PipelineQ1'')"
    by (simp_all add: pipeline_for_def mapping_q_def)
  from one_trigger_per_matching_label
    [OF example_four example_four_log example_mapping example_four_triggers ids]
  have "length (filter (\<lambda>c. call_name c = JStr ''PipelineQ1'')
     (snd (lambda_handler example_world (request body_four ''secret123'')))) =
     length (filter (\<lambda>t. pipeline_for mapping_q t = Some (JStr ''PipelineQ1''))
       (label_titles example_world payload_four))"
    by blast
  with p example_four example_four_log example_mapping example_four_triggers
    example_four_values
  show ?thesis by simp
qed

subsection \<open>C6\<close>

text \<open>
  C6 as stated fails. This authenticated merge-request event has an empty label list, so
  no label title is a key of the mapping, but its \<open>object_attributes\<close> is null: line 79
  raises, and the handler returns no response.
\<close>

theorem no_matching_label_counterexample:
  "authenticated example_world (request body_null_attributes ''secret123'') payload_null_attributes \<and>
   is_merge_request payload_null_attributes \<and>
   labels_of payload_null_attributes = [] \<and>
   json_loads example_world (label_pipeline_mapping_str example_world) = Inr (JObj mapping_q) \<and>
   lambda_handler example_world (request body_null_attributes ''secret123'') =
     (Inl AttributeError, [])"
  using handler_branch_raises [OF example_null_attributes] example_null_attributes(1,2)
    example_mapping
  by (simp add: labels_of_def payload_null_attributes_def)

text \<open>
  C6, amended. An authenticated merge-request event of the webhook shape whose log lines
  are written, and none of whose lowercased label titles is a key of the configured
  mapping (an object), the empty label list included, triggers no pipeline and is
  answered with status 200 and the message \<^verbatim>\<open>No matching label for pipeline, skipped\<close>.
\<close>

theorem no_matching_label_skipped:
  assumes "authenticated w ev payload"
    and "is_merge_request payload"
    and "webhook_shaped payload"
    and "log_written w payload"
    and "json_loads w (label_pipeline_mapping_str w) = Inr (JObj mapping)"
    and "\<forall>t \<in> set (label_titles w payload). map_of mapping t = None"
  shows "lambda_handler w ev =
     (Inr \<lparr>statusCode = 200,
           body = json_dumps w (JObj [(''message'', JStr ''No matching label for pipeline, skipped'')]),
           headers = Some [(''Content-Type'', ''application/json'')]\<rparr>, [])"
proof -
  from assms(6) have "\<forall>t \<in> set (label_titles w payload). pipeline_for mapping t = None"
    by (simp add: pipeline_for_def)
  from handler_unmatched [OF assms(1-5) this] show ?thesis .
qed

theorem no_matching_label_skipped_witness:
  "authenticated example_world (request body_docs ''secret123'') payload_docs \<and>
   is_merge_request payload_docs \<and>
   webhook_shaped payload_docs \<and>
   log_written example_world payload_docs \<and>
   json_loads example_world (label_pipeline_mapping_str example_world) = Inr (JObj mapping_q) \<and>
   label_titles example_world payload_docs = [''docs''] \<and>
   map_of mapping_q ''docs'' = None \<and>
   lambda_handler example_world (request body_docs ''secret123'') =
     (Inr \<lparr>statusCode = 200,
           body = json_dumps example_world
             (JObj [(''message'', JStr ''No matching label for pipeline, skipped'')]),
           headers = Some [(''Content-Type'', ''application/json'')]\<rparr>, [])"
proof -
  have none: "map_of mapping_q ''docs'' = None"
    by (simp add: mapping_q_def)
  then have all_none: "\<forall>t \<in> set (label_titles example_world payload_docs). map_of mapping_q t = None"
    by (simp add: example_docs_values)
  from no_matching_label_skipped [OF example_docs example_docs_log example_mapping all_none]
    example_docs example_docs_log example_mapping example_docs_values none
  show ?thesis by simp
qed

subsection \<open>C7\<close>

text \<open>
  C7 as stated fails. The configuration is not JSON, the body parses, authentication
  succeeds and the event is a merge request, but \<open>labels\<close> is null: the comprehension of
  line 76, which runs before the configuration is loaded, raises, and the answer is not
  the 500.
\<close>

theorem config_error_counterexample:
  "json_loads broken_config_world (label_pipeline_mapping_str broken_config_world)
     = Inl JSONDecodeError \<and>
   authenticated broken_config_world (request body_null_labels ''secret123'') payload_null_labels \<and>
   is_merge_request payload_null_labels \<and>
   lambda_handler broken_config_world (request body_null_labels ''secret123'') = (Inl TypeError, [])"
  using handler_titles_raise [OF example_null_labels] example_null_labels(1,2) broken_mapping
  by simp

text \<open>
  C7, amended. For a request whose payload, when the body parses, has the webhook shape,
  and whose configuration is malformed JSON (the parser raises \<^verbatim>\<open>JSONDecodeError\<close> on
  it): the handler returns the 500 \<^verbatim>\<open>Invalid LABEL_PIPELINE_MAPPING env var\<close> exactly when
  the body parses, authentication succeeds, \<open>object_kind\<close> is \<^verbatim>\<open>merge_request\<close>, and the
  label titles and the source branch are written to the log (lines 77 and 80, which run
  before the configuration is loaded). A body that is malformed JSON gets the 400, a
  failed authentication the 403 with its reason, an authenticated event of another kind
  the neutral 200, and no pipeline is triggered.
\<close>

theorem config_error_after_extraction:
  assumes "json_loads w (label_pipeline_mapping_str w) = Inl JSONDecodeError"
    and "\<forall>payload. json_loads w (request_body ev) = Inr payload \<longrightarrow> webhook_shaped payload"
  shows "(lambda_handler w ev =
            (Inr \<lparr>statusCode = 500,
                  body = json_dumps w (JObj [(''error'', JStr ''Invalid LABEL_PIPELINE_MAPPING env var'')]),
                  headers = None\<rparr>, [])
          \<longleftrightarrow> (\<exists>payload. authenticated w ev payload \<and> is_merge_request payload \<and>
                 log_written w payload)) \<and>
         (json_loads w (request_body ev) = Inl JSONDecodeError \<longrightarrow>
            lambda_handler w ev =
              (Inr \<lparr>statusCode = 400,
                    body = json_dumps w (JObj [(''error'', JStr ''Invalid JSON payload'')]),
                    headers = None\<rparr>, [])) \<and>
         (\<forall>payload reason.
            json_loads w (request_body ev) = Inr payload \<and>
            verify_gitlab_signature w payload (request_headers ev) = Inr (False, Some reason) \<longrightarrow>
            lambda_handler w ev =
              (Inr \<lparr>statusCode = 403,
                    body = json_dumps w (JObj [(''error'', JStr reason)]),
                    headers = None\<rparr>, [])) \<and>
         (\<forall>payload.
            authenticated w ev payload \<and> \<not> is_merge_request payload \<longrightarrow>
            lambda_handler w ev =
              (Inr \<lparr>statusCode = 200,
                    body = json_dumps w (JObj [(''message'', JStr ''Not a merge request event'')]),
                    headers = None\<rparr>, [])) \<and>
         snd (lambda_handler w ev) = []"
proof -
  have "(\<exists>payload ls b. reaches_line_84 w ev payload ls b) \<longleftrightarrow>
      (\<exists>payload. authenticated w ev payload \<and> is_merge_request payload \<and> log_written w payload)"
  proof
    assume "\<exists>payload ls b. reaches_line_84 w ev payload ls b"
    then obtain payload ls b where r: "reaches_line_84 w ev payload ls b" by blast
    with assms(2) have "webhook_shaped payload"
      by (simp add: reaches_line_84_def authenticated_def)
    from reaches_shaped [OF r this]
    show "\<exists>payload. authenticated w ev payload \<and> is_merge_request payload \<and> log_written w payload"
      by blast
  next
    assume "\<exists>payload. authenticated w ev payload \<and> is_merge_request payload \<and> log_written w payload"
    then obtain payload where p: "authenticated w ev payload" "is_merge_request payload"
      "log_written w payload" by blast
    with assms(2) have "webhook_shaped payload"
      by (simp add: authenticated_def)
    from shaped_reaches [OF p(1,2) this p(3)]
    show "\<exists>payload ls b. reaches_line_84 w ev payload ls b" by blast
  qed
  with handler_bad_mapping_iff [OF assms(1), of ev] handler_bad_mapping_calls [OF assms(1), of ev]
    handler_parse_error [of w ev] handler_forbidden [of w ev]
    handler_not_merge_request [of w ev]
  show ?thesis
    by (auto simp: error_body_def message_body_def)
qed

theorem config_error_after_extraction_witness:
  "json_loads broken_config_world (label_pipeline_mapping_str broken_config_world)
     = Inl JSONDecodeError \<and>
   json_loads broken_config_world (request_body (request body_q1 ''secret123'')) = Inr payload_q1 \<and>
   webhook_shaped payload_q1 \<and>
   authenticated broken_config_world (request body_q1 ''secret123'') payload_q1 \<and>
   is_merge_request payload_q1 \<and>
   log_written broken_config_world payload_q1 \<and>
   lambda_handler broken_config_world (request body_q1 ''secret123'') =
     (Inr \<lparr>statusCode = 500,
           body = json_dumps broken_config_world
             (JObj [(''error'', JStr ''Invalid LABEL_PIPELINE_MAPPING env var'')]),
           headers = None\<rparr>, [])"
proof -
  have parsed: "json_loads broken_config_world (request_body (request body_q1 ''secret123''))
      = Inr payload_q1"
    by (simp add: example_defs)
  with example_q1_broken(3)
  have shaped: "\<forall>payload. json_loads broken_config_world
      (request_body (request body_q1 ''secret123'')) = Inr payload \<longrightarrow> webhook_shaped payload"
    by simp
  have "\<exists>payload. authenticated broken_config_world (request body_q1 ''secret123'') payload \<and>
      is_merge_request payload \<and> log_written broken_config_world payload"
    using example_q1_broken example_q1_broken_log by blast
  with config_error_after_extraction [OF broken_mapping shaped]
  have "lambda_handler broken_config_world (request body_q1 ''secret123'') =
     (Inr \<lparr>statusCode = 500,
           body = json_dumps broken_config_world
             (JObj [(''error'', JStr ''Invalid LABEL_PIPELINE_MAPPING env var'')]),
           headers = None\<rparr>, [])"
    by blast
  with broken_mapping parsed example_q1_broken example_q1_broken_log show ?thesis by simp
qed

subsection \<open>C8\<close>

text \<open>
  C8 as stated fails. The body \<^verbatim>\<open>{"object_kind":"merge_request","project":null}\<close> parses and
  names no project, which is an authentication failure by section 4.1 of the
  specification; line 28 calls \<^verbatim>\<open>get\<close> on the null and the \<^verbatim>\<open>AttributeError\<close> leaves the
  handler. It is no failure of the secret store or of the pipeline backend.
\<close>

theorem propagation_counterexample:
  "json_loads example_world (request_body (request body_null_project [])) = Inr payload_null_project \<and>
   path_with_namespace payload_null_project = None \<and>
   lambda_handler example_world (request body_null_project []) = (Inl AttributeError, []) \<and>
   \<not> backend_failure AttributeError"
  using handler_auth_raises [OF example_null_project] example_null_project(1)
  by (simp add: backend_failure_def path_with_namespace_def payload_null_project_def)

text \<open>
  C8, amended. For a request whose payload, when the body parses, has the webhook shape
  (an object; \<open>project\<close> and \<open>object_attributes\<close> absent or objects; \<open>labels\<close> absent or a
  list of objects with a string title) and whose configuration, when it parses, is a JSON
  object: an exception that leaves the handler is a failure of the secret store or of the
  pipeline backend, the \<^verbatim>\<open>UnicodeEncodeError\<close> of a log line that standard output cannot
  encode, or an exception of the JSON parser other than \<^verbatim>\<open>JSONDecodeError\<close>. A body that
  is malformed JSON, a failed authentication and an event of another kind get their
  structured responses; so do a malformed configuration and a merge request without a
  matching label once the label titles and the source branch are written to the log; and
  none of these triggers a pipeline.
\<close>

theorem only_backend_failures_propagate:
  assumes "\<forall>payload. json_loads w (request_body ev) = Inr payload \<longrightarrow> webhook_shaped payload"
    and "\<forall>m. json_loads w (label_pipeline_mapping_str w) = Inr m \<longrightarrow> is_object m"
  shows "(\<forall>e. fst (lambda_handler w ev) = Inl e \<longrightarrow>
            backend_failure e \<or> e = UnicodeEncodeError \<or>
            (e \<noteq> JSONDecodeError \<and>
             (json_loads w (request_body ev) = Inl e \<or>
              json_loads w (label_pipeline_mapping_str w) = Inl e))) \<and>
         (json_loads w (request_body ev) = Inl JSONDecodeError \<longrightarrow>
            lambda_handler w ev =
              (Inr \<lparr>statusCode = 400,
                    body = json_dumps w (JObj [(''error'', JStr ''Invalid JSON payload'')]),
                    headers = None\<rparr>, [])) \<and>
         (\<forall>payload reason.
            json_loads w (request_body ev) = Inr payload \<and>
            verify_gitlab_signature w payload (request_headers ev) = Inr (False, Some reason) \<longrightarrow>
            lambda_handler w ev =
              (Inr \<lparr>statusCode = 403,
                    body = json_dumps w (JObj [(''error'', JStr reason)]),
                    headers = None\<rparr>, [])) \<and>
         (\<forall>payload.
            authenticated w ev payload \<and> \<not> is_merge_request payload \<longrightarrow>
            lambda_handler w ev =
              (Inr \<lparr>statusCode = 200,
                    body = json_dumps w (JObj [(''message'', JStr ''Not a merge request event'')]),
                    headers = None\<rparr>, [])) \<and>
         (\<forall>payload.
            authenticated w ev payload \<and> is_merge_request payload \<and> log_written w payload \<and>
            json_loads w (label_pipeline_mapping_str w) = Inl JSONDecodeError \<longrightarrow>
            lambda_handler w ev =
              (Inr \<lparr>statusCode = 500,
                    body = json_dumps w (JObj [(''error'', JStr ''Invalid LABEL_PIPELINE_MAPPING env var'')]),
                    headers = None\<rparr>, [])) \<and>
         (\<forall>payload mapping.
            authenticated w ev payload \<and> is_merge_request payload \<and> log_written w payload \<and>
            json_loads w (label_pipeline_mapping_str w) = Inr (JObj mapping) \<and>
            (\<forall>t \<in> set (label_titles w payload). pipeline_for mapping t = None) \<longrightarrow>
            lambda_handler w ev =
              (Inr \<lparr>statusCode = 200,
                    body = json_dumps w (JObj [(''message'', JStr ''No matching label for pipeline, skipped'')]),
                    headers = Some [(''Content-Type'', ''application/json'')]\<rparr>, []))"
proof -
  have raises: "backend_failure e \<or> e = UnicodeEncodeError \<or>
      (e \<noteq> JSONDecodeError \<and>
       (json_loads w (request_body ev) = Inl e \<or>
        json_loads w (label_pipeline_mapping_str w) = Inl e))"
    if e: "fst (lambda_handler w ev) = Inl e" for e
  proof -
    from handler_never_decode_error [OF e] have "e \<noteq> JSONDecodeError" .
    with handler_raises_shaped [OF e assms] show ?thesis
      by (auto simp: backend_failure_def)
  qed
  have shaped: "webhook_shaped payload" if "authenticated w ev payload" for payload
    using that assms(1) by (simp add: authenticated_def)
  have mapping_error: "lambda_handler w ev =
      (Inr \<lparr>statusCode = 500,
            body = json_dumps w (JObj [(''error'', JStr ''Invalid LABEL_PIPELINE_MAPPING env var'')]),
            headers = None\<rparr>, [])"
    if "authenticated w ev payload" "is_merge_request payload" "log_written w payload"
      "json_loads w (label_pipeline_mapping_str w) = Inl JSONDecodeError" for payload
    using handler_bad_mapping [OF shaped_reaches [OF that(1,2) shaped [OF that(1)] that(3)] that(4)]
    by (simp add: error_body_def)
  have no_match: "lambda_handler w ev =
      (Inr \<lparr>statusCode = 200,
            body = json_dumps w (JObj [(''message'', JStr ''No matching label for pipeline, skipped'')]),
            headers = Some [(''Content-Type'', ''application/json'')]\<rparr>, [])"
    if "authenticated w ev payload" "is_merge_request payload" "log_written w payload"
      "json_loads w (label_pipeline_mapping_str w) = Inr (JObj mapping)"
      "\<forall>t \<in> set (label_titles w payload). pipeline_for mapping t = None" for payload mapping
    using handler_unmatched [OF that(1,2) shaped [OF that(1)] that(3,4,5)] .
  from raises mapping_error no_match show ?thesis
    using handler_parse_error [of w ev] handler_forbidden [of w ev]
      handler_not_merge_request [of w ev]
    by (auto simp: error_body_def message_body_def)
qed

theorem only_backend_failures_propagate_witness:
  "json_loads example_world (request_body (request body_docs ''secret123'')) = Inr payload_docs \<and>
   webhook_shaped payload_docs \<and>
   json_loads example_world (label_pipeline_mapping_str example_world) = Inr (JObj mapping_q) \<and>
   is_object (JObj mapping_q) \<and>
   authenticated example_world (request body_docs ''secret123'') payload_docs \<and>
   is_merge_request payload_docs \<and>
   log_written example_world payload_docs \<and>
   label_titles example_world payload_docs = [''docs''] \<and>
   pipeline_for mapping_q ''docs'' = None \<and>
   lambda_handler example_world (request body_docs ''secret123'') =
     (Inr \<lparr>statusCode = 200,
           body = json_dumps example_world
             (JObj [(''message'', JStr ''No matching label for pipeline, skipped'')]),
           headers = Some [(''Content-Type'', ''application/json'')]\<rparr>, [])"
proof -
  have parsed: "json_loads example_world (request_body (request body_docs ''secret123''))
      = Inr payload_docs"
    by (simp add: example_defs)
  have h1: "\<forall>payload. json_loads example_world (request_body (request body_docs ''secret123''))
      = Inr payload \<longrightarrow> webhook_shaped payload"
    using parsed example_docs(3) by simp
  have obj: "is_object (JObj mapping_q)"
    by (simp add: is_object_def)
  have h2: "\<forall>m. json_loads example_world (label_pipeline_mapping_str example_world) = Inr m
      \<longrightarrow> is_object m"
    using obj by (simp add: example_mapping)
  have none: "pipeline_for mapping_q ''docs'' = None"
    by (simp add: pipeline_for_def mapping_q_def)
  then have all_none:
    "\<forall>t \<in> set (label_titles example_world payload_docs). pipeline_for mapping_q t = None"
    by (simp add: example_docs_values)
  from only_backend_failures_propagate [OF h1 h2] example_docs(1,2) example_docs_log
    example_mapping all_none
  have "lambda_handler example_world (request body_docs ''secret123'') =
     (Inr \<lparr>statusCode = 200,
           body = json_dumps example_world
             (JObj [(''message'', JStr ''No matching label for pipeline, skipped'')]),
           headers = Some [(''Content-Type'', ''application/json'')]\<rparr>, [])"
    by blast
  with parsed obj example_docs example_docs_log example_docs_values example_mapping none
  show ?thesis by simp
qed

subsection \<open>C9\<close>

text \<open>
  C9 as stated fails. \<^verbatim>\<open>LABEL_PIPELINE_MAPPING\<close> is not set and the event is an
  authenticated merge request, but its labels are plain strings: line 76 raises, and the
  event does not get the \<^verbatim>\<open>No matching label\<close> response.
\<close>

theorem unset_mapping_counterexample:
  "environ unset_config_world ''LABEL_PIPELINE_MAPPING'' = None \<and>
   authenticated unset_config_world (request body_plain_labels ''secret123'') payload_plain_labels \<and>
   is_merge_request payload_plain_labels \<and>
   lambda_handler unset_config_world (request body_plain_labels ''secret123'') = (Inl TypeError, [])"
  using handler_titles_raise [OF example_plain_labels] example_plain_labels(1,2)
  by (simp add: example_fields)

text \<open>
  C9, amended. When \<^verbatim>\<open>LABEL_PIPELINE_MAPPING\<close> is not set the handler loads the document
  \<^verbatim>\<open>{}\<close>, the empty mapping: no response has status 500, and every authenticated
  merge-request event of the webhook shape whose label titles and source branch are
  written to the log gets the 200 \<^verbatim>\<open>No matching label for pipeline, skipped\<close>, with no
  pipeline triggered.
\<close>

theorem unset_mapping_is_empty:
  assumes "environ w ''LABEL_PIPELINE_MAPPING'' = None"
    and "json_loads w ''{}'' = Inr (JObj [])"
  shows "(\<forall>r. fst (lambda_handler w ev) = Inr r \<longrightarrow> statusCode r \<noteq> 500) \<and>
         (\<forall>payload.
            authenticated w ev payload \<and> is_merge_request payload \<and>
            webhook_shaped payload \<and> log_written w payload \<longrightarrow>
            lambda_handler w ev =
              (Inr \<lparr>statusCode = 200,
                    body = json_dumps w (JObj [(''message'', JStr ''No matching label for pipeline, skipped'')]),
                    headers = Some [(''Content-Type'', ''application/json'')]\<rparr>, []))"
proof -
  from assms have cfg: "json_loads w (label_pipeline_mapping_str w) = Inr (JObj [])"
    by (simp add: label_pipeline_mapping_str_def)
  have status: "statusCode r \<noteq> 500" if "fst (lambda_handler w ev) = Inr r" for r
    using handler_status_500 [OF that] cfg by auto
  have skipped: "lambda_handler w ev =
      (Inr \<lparr>statusCode = 200,
            body = json_dumps w (JObj [(''message'', JStr ''No matching label for pipeline, skipped'')]),
            headers = Some [(''Content-Type'', ''application/json'')]\<rparr>, [])"
    if "authenticated w ev payload" "is_merge_request payload"
      "webhook_shaped payload" "log_written w payload" for payload
    using handler_unmatched [OF that cfg] by (simp add: pipeline_for_def)
  from status skipped show ?thesis by blast
qed

theorem unset_mapping_is_empty_witness:
  "environ unset_config_world ''LABEL_PIPELINE_MAPPING'' = None \<and>
   json_loads unset_config_world ''{}'' = Inr (JObj []) \<and>
   authenticated unset_config_world (request body_q1 ''secret123'') payload_q1 \<and>
   is_merge_request payload_q1 \<and>
   webhook_shaped payload_q1 \<and>
   log_written unset_config_world payload_q1 \<and>
   lambda_handler unset_config_world (request body_q1 ''secret123'') =
     (Inr \<lparr>statusCode = 200,
           body = json_dumps unset_config_world
             (JObj [(''message'', JStr ''No matching label for pipeline, skipped'')]),
           headers = Some [(''Content-Type'', ''application/json'')]\<rparr>, [])"
proof -
  have env: "environ unset_config_world ''LABEL_PIPELINE_MAPPING'' = None"
    by (simp add: example_fields)
  from unset_mapping_is_empty [OF env unset_empty, of "request body_q1 ''secret123''"]
    example_q1_unset example_q1_broken(2,3) example_q1_unset_log
  have "lambda_handler unset_config_world (request body_q1 ''secret123'') =
     (Inr \<lparr>statusCode = 200,
           body = json_dumps unset_config_world
             (JObj [(''message'', JStr ''No matching label for pipeline, skipped'')]),
           headers = Some [(''Content-Type'', ''application/json'')]\<rparr>, [])"
    by blast
  with env unset_empty example_q1_unset example_q1_broken(2,3) example_q1_unset_log
  show ?thesis by simp
qed

subsection \<open>C10\<close>

text \<open>
  C10. An event without a \<open>body\<close> key is handled as the document \<^verbatim>\<open>{}\<close>, which the
  parser reads as the empty object: the answer is not the 400 of a malformed body but the
  403 with the reason \<^verbatim>\<open>No project info in payload\<close>.
\<close>

theorem missing_body_forbidden:
  assumes "event_body ev = None"
    and "json_loads w ''{}'' = Inr (JObj [])"
  shows "lambda_handler w ev =
     (Inr \<lparr>statusCode = 403,
           body = json_dumps w (JObj [(''error'', JStr ''No project info in payload'')]),
           headers = None\<rparr>, [])"
proof -
  from assms have parsed: "json_loads w (request_body ev) = Inr (JObj [])"
    by (simp add: request_body_def)
  have "verify_gitlab_signature w (JObj []) (request_headers ev) =
      Inr (False, Some ''No project info in payload'')"
    by (simp add: verify_gitlab_signature_def payload_project_def)
  from handler_forbidden [OF parsed this] show ?thesis
    by (simp add: error_body_def)
qed

theorem missing_body_forbidden_witness:
  "event_body \<lparr>event_body = None, event_headers = Some [(''X-Gitlab-Token'', ''secret123'')]\<rparr> = None \<and>
   json_loads example_world ''{}'' = Inr (JObj []) \<and>
   lambda_handler example_world
       \<lparr>event_body = None, event_headers = Some [(''X-Gitlab-Token'', ''secret123'')]\<rparr> =
     (Inr \<lparr>statusCode = 403,
           body = json_dumps example_world (JObj [(''error'', JStr ''No project info in payload'')]),
           headers = None\<rparr>, [])"
proof -
  have h2: "json_loads example_world ''{}'' = Inr (JObj [])"
    by (simp add: example_defs)
  from missing_body_forbidden [OF _ h2, of
      "\<lparr>event_body = None, event_headers = Some [(''X-Gitlab-Token'', ''secret123'')]\<rparr>"] h2
  show ?thesis by simp
qed

end
